theory Spec2Isabelle
  imports Main "HOL-Library.Word" "HOL-Library.Monad_Syntax"
begin

section \<open>Data model of sslkeylog.c\<close>

type_synonym byte = "8 word"

text \<open>A C pointer; only the comparison with \<open>NULL\<close> is ever used by the shim.\<close>

type_synonym ptr = "64 word"

definition NULL :: ptr where
  "NULL = 0"

text \<open>
  Modelled from the spec: the two capacities come from the OpenSSL headers, which are not
  part of the repository; the spec gives them as 32 bytes (client random) and 48 bytes
  (master key).
\<close>

definition SSL3_RANDOM_SIZE :: nat where
  "SSL3_RANDOM_SIZE = 32"

definition SSL_MAX_MASTER_KEY_LENGTH :: nat where
  "SSL_MAX_MASTER_KEY_LENGTH = 48"

text \<open>The macros of lines 29-31; \<open>sizeof(CLIENT_RANDOM) - 1\<close> is the length of the literal.\<close>

definition CLIENT_RANDOM :: string where
  "CLIENT_RANDOM = ''CLIENT_RANDOM ''"

definition CLIENT_RANDOM_LEN :: nat where
  "CLIENT_RANDOM_LEN = length CLIENT_RANDOM"

definition CLIENT_RANDOM_LINE_LENGTH :: nat where
  "CLIENT_RANDOM_LINE_LENGTH =
     CLIENT_RANDOM_LEN + (SSL3_RANDOM_SIZE * 2) + 1 + (SSL_MAX_MASTER_KEY_LENGTH * 2) + 2"

text \<open>
  The two structs of lines 38-49. The C fields are called \<open>value\<close> and \<open>length\<close> in both;
  they carry a prefix here because both names are taken in Isabelle.
\<close>

record SslMasterKey =
  mk_value :: "byte list"
  mk_length :: nat

record SslClientRandom =
  cr_value :: "byte list"
  cr_length :: nat

text \<open>
  Everything the shim does to the outside world is recorded, in order, in a trace:
  calls through the resolved OpenSSL entry points, the dynamic loader, and the system calls
  on the key-log file.
\<close>

datatype event =
    LibCall string
  | Dl_sym_next string
  | Dl_open string
  | Dl_sym ptr string
  | Dl_close ptr
  | Sys_open string
  | Sys_write int string
  | Sys_close int

text \<open>
  How the process can die: \<open>abort()\<close>, a call through a null function pointer, a null
  handle dereferenced by the dynamic loader, a null session dereferenced by the library, an
  access past the end of a buffer.
\<close>

datatype fault = Aborted | NullCall | BadHandle | NullSession | OutOfBounds

text \<open>
  The file-scope variables of lines 69-82 and 276, plus the trace and the number of times
  \<open>KeyLogFile_finalize\<close> has been handed to \<open>atexit\<close>. The C names of the function
  pointers start with an underscore (\<open>_SSL_connect\<close>); here they start with \<open>real\<close>.
\<close>

record process =
  openssl_init_flag :: bool
  real_SSL_new :: ptr
  real_SSL_connect :: ptr
  real_SSL_do_handshake :: ptr
  real_SSL_accept :: ptr
  real_SSL_get_client_random :: ptr
  real_SSL_SESSION_get_master_key :: ptr
  real_SSL_get_session :: ptr
  real_SSL_CTX_set_keylog_callback :: ptr
  KeyLogFile_fd :: int
  atexit_handlers :: nat
  trace :: "event list"

text \<open>A function either returns, or the process dies with a fault in the state it had reached.\<close>

type_synonym 'a result = "(fault \<times> process) + 'a"

definition initial_process :: process where
  "initial_process =
     \<lparr> openssl_init_flag = False,
       real_SSL_new = NULL, real_SSL_connect = NULL, real_SSL_do_handshake = NULL,
       real_SSL_accept = NULL, real_SSL_get_client_random = NULL,
       real_SSL_SESSION_get_master_key = NULL, real_SSL_get_session = NULL,
       real_SSL_CTX_set_keylog_callback = NULL,
       KeyLogFile_fd = - 1, atexit_handlers = 0, trace = [] \<rparr>"

definition emit :: "event list \<Rightarrow> process \<Rightarrow> process" where
  "emit evs g = g\<lparr>trace := trace g @ evs\<rparr>"

section \<open>The environment: OpenSSL, the dynamic loader, the operating system\<close>

text \<open>
  The wrapped library is a parameter. \<open>'c\<close> is the state of an \<open>SSL_CTX\<close>, \<open>'s\<close> of an
  \<open>SSL\<close> object and \<open>'e\<close> of an \<open>SSL_SESSION\<close>. A handshake returns its \<open>int\<close> result,
  the new state of the \<open>SSL\<close> object and the lines it hands to a registered key-log
  callback while it runs. \<open>SSL_get_session\<close> returns the session of the object, or a null
  pointer (\<open>None\<close>) when the object has none, as an object fresh from \<open>SSL_new\<close> has.
  \<open>lib_master_key\<close> and \<open>lib_client_random\<close> are the secrets the library holds; they
  reach the shim through \<open>copy_out\<close>.
\<close>

record ('c, 's, 'e) libssl =
  lib_SSL_new :: "'c \<Rightarrow> 's"
  lib_SSL_connect :: "'s \<Rightarrow> int \<times> 's \<times> string list"
  lib_SSL_do_handshake :: "'s \<Rightarrow> int \<times> 's \<times> string list"
  lib_SSL_accept :: "'s \<Rightarrow> int \<times> 's \<times> string list"
  lib_SSL_get_session :: "'s \<Rightarrow> 'e option"
  lib_master_key :: "'e \<Rightarrow> byte list"
  lib_client_random :: "'s \<Rightarrow> byte list"

text \<open>
  Modelled from the spec: \<open>SSL_get_client_random\<close> and \<open>SSL_SESSION_get_master_key\<close> belong
  to the wrapped library, which is not part of the repository. A read fills the front of
  the caller's buffer and returns a length, 0 meaning that the secret is unavailable; as
  OpenSSL documents the two functions, with \<open>outlen = 0\<close> nothing is copied and the size of
  the secret is returned, otherwise at most \<open>outlen\<close> bytes are copied to the front of
  \<open>out\<close> and their number is returned.
\<close>

definition copy_out :: "byte list \<Rightarrow> byte list \<Rightarrow> nat \<Rightarrow> byte list \<times> nat" where
  "copy_out secret out outlen =
     (if outlen = 0 then (out, length secret)
      else let n = min outlen (length secret)
           in (take n secret @ drop n out, n))"

text \<open>
  The loader and the operating system are parameters as well. \<open>env_dlclose_null_returns\<close>
  says what \<open>dlclose\<close> does with a null handle: POSIX has it return an error, the GNU C
  library dereferences the handle and the process dies.
\<close>

record os_env =
  env_dlsym_next :: "string \<Rightarrow> ptr"
  env_dlopen :: "string \<Rightarrow> ptr"
  env_dlsym :: "ptr \<Rightarrow> string \<Rightarrow> ptr"
  env_dlclose_null_returns :: bool
  env_getenv :: "string \<Rightarrow> string option"
  env_open :: "string \<Rightarrow> int"

section \<open>libc helpers used by the shim\<close>

text \<open>
  \<open>memcmp\<close> over the first \<open>n\<close> bytes of two buffers: the sign of the first difference,
  \<open>None\<close> when it would have to read past the end of a buffer.
\<close>

fun memcmp :: "byte list \<Rightarrow> byte list \<Rightarrow> nat \<Rightarrow> int option" where
  "memcmp s1 s2 0 = Some 0"
| "memcmp (a # s1) (b # s2) (Suc n) =
     (if a = b then memcmp s1 s2 n else if a < b then Some (- 1) else Some 1)"
| "memcmp s1 s2 (Suc n) = None"

text \<open>\<open>memcpy\<close> and the other stores into a buffer: \<open>None\<close> when they run past its end.\<close>

definition store_bytes :: "string \<Rightarrow> nat \<Rightarrow> string \<Rightarrow> string option" where
  "store_bytes buf p bs =
     (if p + length bs \<le> length buf
      then Some (take p buf @ bs @ drop (p + length bs) buf)
      else None)"

definition hex_digit :: "nat \<Rightarrow> char" where
  "hex_digit d = ''0123456789abcdef'' ! d"

text \<open>
  \<open>sprintf(p, "%02x", b)\<close> for an \<open>unsigned char\<close>: two lowercase digits and the
  terminating NUL.
\<close>

definition sprintf_02x :: "byte \<Rightarrow> string" where
  "sprintf_02x b = [hex_digit (unat b div 16), hex_digit (unat b mod 16), CHR 0x00]"

section \<open>The key-log writer\<close>

text \<open>
  The two \<open>for\<close> loops of lines 345-349 and 354-358: \<open>line\<close> is the buffer, \<open>p\<close> the
  offset of the write pointer in it, \<open>i\<close> the loop counter and \<open>n\<close> the \<open>length\<close> field.
\<close>

function hex_loop :: "string \<Rightarrow> nat \<Rightarrow> byte list \<Rightarrow> nat \<Rightarrow> nat \<Rightarrow> (string \<times> nat) option" where
  "hex_loop line p v i n =
     (if i < n then
        (if i < length v then
           (case store_bytes line p (sprintf_02x (v ! i)) of
              None \<Rightarrow> None
            | Some line' \<Rightarrow> hex_loop line' (p + 2) v (i + 1) n)
         else None)
      else Some (line, p))"
  by pat_completeness auto
termination
  by (relation "measure (\<lambda>(line, p, v, i, n). n - i)") auto

declare hex_loop.simps [simp del]

text \<open>
  Lines 339-362 of \<open>KeyLogFile_raw_dump\<close>: the bytes handed to \<open>write\<close>, or \<open>None\<close> when a
  store or a read leaves its buffer.
\<close>

definition format_line :: "SslClientRandom \<Rightarrow> SslMasterKey \<Rightarrow> string option" where
  "format_line client_random master_key = do {
     let line = replicate CLIENT_RANDOM_LINE_LENGTH (CHR 0x00);
     line \<leftarrow> store_bytes line 0 CLIENT_RANDOM;
     let p = CLIENT_RANDOM_LEN;
     (line, p) \<leftarrow> hex_loop line p (cr_value client_random) 0 (cr_length client_random);
     line \<leftarrow> store_bytes line p '' '';
     let p = p + 1;
     (line, p) \<leftarrow> hex_loop line p (mk_value master_key) 0 (mk_length master_key);
     line \<leftarrow> store_bytes line p ''\<newline>'';
     let p = p + 1;
     Some (take p line)
   }"

text \<open>
  \<open>KeyLogFile_raw_dump\<close>, lines 334-366: the guard on the two lengths, the formatting, and
  one \<open>write\<close> on \<open>KeyLogFile_fd\<close>, whose result is ignored.
\<close>

definition KeyLogFile_raw_dump :: "process \<Rightarrow> SslClientRandom \<Rightarrow> SslMasterKey \<Rightarrow> process result" where
  "KeyLogFile_raw_dump g client_random master_key =
     (if cr_length client_random \<noteq> 0 \<and> mk_length master_key \<noteq> 0 then
        (case format_line client_random master_key of
           None \<Rightarrow> Inl (OutOfBounds, g)
         | Some line \<Rightarrow> Inr (emit [Sys_write (KeyLogFile_fd g) line] g))
      else Inr g)"

text \<open>
  \<open>KeyLogFile_callback\<close>, lines 317-326: with a valid descriptor, one \<open>write\<close> for the line
  of the library and one for the newline.
\<close>

definition KeyLogFile_callback :: "process \<Rightarrow> string \<Rightarrow> process" where
  "KeyLogFile_callback g line =
     (if KeyLogFile_fd g \<ge> 0 then
        emit [Sys_write (KeyLogFile_fd g) ''\<newline>'']
          (emit [Sys_write (KeyLogFile_fd g) line] g)
      else g)"

text \<open>
  \<open>KeyLogFile_init\<close>, lines 281-296: \<open>open\<close> with \<open>O_WRONLY | O_APPEND | O_CREAT\<close>, whose
  result (a descriptor, or -1) becomes \<open>KeyLogFile_fd\<close>, and \<open>atexit(KeyLogFile_finalize)\<close>,
  both only when the variable is set.
\<close>

definition KeyLogFile_init :: "os_env \<Rightarrow> process \<Rightarrow> process" where
  "KeyLogFile_init env g =
     (if KeyLogFile_fd g \<ge> 0 then g
      else case env_getenv env ''SSLKEYLOGFILE'' of
             None \<Rightarrow> g
           | Some sslkeylogfile_name \<Rightarrow>
               (emit [Sys_open sslkeylogfile_name] g)
                 \<lparr> KeyLogFile_fd := env_open env sslkeylogfile_name,
                   atexit_handlers := atexit_handlers g + 1 \<rparr>)"



section \<open>The format of a key-log line, as the specification words it\<close>

text \<open>Lowercase hex, two characters per byte, no separators.\<close>

definition hex_byte :: "byte \<Rightarrow> string" where
  "hex_byte b = [hex_digit (unat b div 16), hex_digit (unat b mod 16)]"

definition hex :: "byte list \<Rightarrow> string" where
  "hex bs = concat (map hex_byte bs)"

definition KeyLogLine :: "byte list \<Rightarrow> byte list \<Rightarrow> string" where
  "KeyLogLine client_random master_key =
     ''CLIENT_RANDOM '' @ hex client_random @ '' '' @ hex master_key @ ''\<newline>''"

section \<open>Resolving the entry points of the real library\<close>

text \<open>
  \<open>load_function\<close>, lines 233-250 (\<open>symb\<close> is the parameter \<open>sym\<close>). \<open>dlclose\<close> is
  called with whatever \<open>dlopen\<close> returned, also with a null handle, and its result is
  ignored.
\<close>

definition load_function :: "os_env \<Rightarrow> process \<Rightarrow> string \<Rightarrow> (ptr \<times> process) result" where
  "load_function env g symb =
     (let func = env_dlsym_next env symb;
          g1 = emit [Dl_sym_next symb] g
      in if func = NULL then
           (let handle = env_dlopen env ''libssl.so'';
                g2 = emit [Dl_open ''libssl.so''] g1;
                (func', g3) =
                  (if handle \<noteq> NULL
                   then (env_dlsym env handle symb, emit [Dl_sym handle symb] g2)
                   else (func, g2));
                g4 = emit [Dl_close handle] g3
            in if handle = NULL \<and> \<not> env_dlclose_null_returns env
               then Inl (BadHandle, g4)
               else Inr (func', g4))
         else Inr (func, g1))"

text \<open>\<open>load_function_or_die\<close>, lines 259-268: \<open>abort()\<close> on a null result.\<close>

definition load_function_or_die :: "os_env \<Rightarrow> process \<Rightarrow> string \<Rightarrow> (ptr \<times> process) result" where
  "load_function_or_die env g symb =
     (case load_function env g symb of
        Inl e \<Rightarrow> Inl e
      | Inr (func, g') \<Rightarrow> if func = NULL then Inl (Aborted, g') else Inr (func, g'))"

text \<open>
  \<open>init_openssl_hooks\<close>, lines 184-201: seven mandatory entry points, the optional one,
  then the writer.
\<close>

definition init_openssl_hooks :: "os_env \<Rightarrow> process \<Rightarrow> process result" where
  "init_openssl_hooks env g0 =
     (case load_function_or_die env g0 ''SSL_new'' of Inl e \<Rightarrow> Inl e | Inr (f1, g1) \<Rightarrow>
      case load_function_or_die env (g1\<lparr>real_SSL_new := f1\<rparr>) ''SSL_connect'' of
        Inl e \<Rightarrow> Inl e | Inr (f2, g2) \<Rightarrow>
      case load_function_or_die env (g2\<lparr>real_SSL_connect := f2\<rparr>) ''SSL_do_handshake'' of
        Inl e \<Rightarrow> Inl e | Inr (f3, g3) \<Rightarrow>
      case load_function_or_die env (g3\<lparr>real_SSL_do_handshake := f3\<rparr>) ''SSL_accept'' of
        Inl e \<Rightarrow> Inl e | Inr (f4, g4) \<Rightarrow>
      case load_function_or_die env (g4\<lparr>real_SSL_accept := f4\<rparr>) ''SSL_get_client_random'' of
        Inl e \<Rightarrow> Inl e | Inr (f5, g5) \<Rightarrow>
      case load_function_or_die env (g5\<lparr>real_SSL_get_client_random := f5\<rparr>)
             ''SSL_SESSION_get_master_key'' of
        Inl e \<Rightarrow> Inl e | Inr (f6, g6) \<Rightarrow>
      case load_function_or_die env (g6\<lparr>real_SSL_SESSION_get_master_key := f6\<rparr>)
             ''SSL_get_session'' of
        Inl e \<Rightarrow> Inl e | Inr (f7, g7) \<Rightarrow>
      case load_function env (g7\<lparr>real_SSL_get_session := f7\<rparr>) ''SSL_CTX_set_keylog_callback'' of
        Inl e \<Rightarrow> Inl e | Inr (f8, g8) \<Rightarrow>
      Inr (KeyLogFile_init env (g8\<lparr>real_SSL_CTX_set_keylog_callback := f8\<rparr>)))"

text \<open>\<open>call_once(&openssl_init_flag, init_openssl_hooks)\<close>, in a single thread.\<close>

definition call_once :: "os_env \<Rightarrow> process \<Rightarrow> process result" where
  "call_once env g =
     (if openssl_init_flag g then Inr g
      else case init_openssl_hooks env g of
             Inl e \<Rightarrow> Inl e
           | Inr g' \<Rightarrow> Inr (g'\<lparr>openssl_init_flag := True\<rparr>))"

section \<open>The interceptors\<close>

text \<open>
  While a real handshake runs, the library hands its key-log lines to the callback that
  \<open>SSL_new\<close> registered (line 105); \<open>SSL_new\<close> registers it exactly when the optional entry
  point was resolved.
\<close>

definition invoke_keylog_callbacks :: "process \<Rightarrow> string list \<Rightarrow> process" where
  "invoke_keylog_callbacks g lines =
     (if real_SSL_CTX_set_keylog_callback g = NULL then g
      else fold (\<lambda>line g'. KeyLogFile_callback g' line) lines g)"

text \<open>A call of a real handshake function through its resolved pointer \<open>fp\<close>.\<close>

definition call_handshake ::
  "string \<Rightarrow> ptr \<Rightarrow> ('s \<Rightarrow> int \<times> 's \<times> string list) \<Rightarrow> process \<Rightarrow> 's \<Rightarrow> (int \<times> 's \<times> process) result" where
  "call_handshake name fp f g ssl =
     (if fp = NULL then Inl (NullCall, g)
      else case f ssl of
             (ret, ssl', lines) \<Rightarrow>
               Inr (ret, ssl', invoke_keylog_callbacks (emit [LibCall name] g) lines))"

text \<open>
  The snapshot of lines 130-131, 150-151, 165-166 and 210-211: a zeroed \<open>SslMasterKey\<close>
  filled by \<open>_SSL_SESSION_get_master_key(_SSL_get_session(ssl), value, 48)\<close>.
  \<open>master_key_snapshot\<close> is the struct that results for a session, \<open>read_master_key\<close> the
  two calls through the resolved pointers that produce it. The result of
  \<open>_SSL_get_session\<close> is handed on unchecked: when it is null,
  \<open>SSL_SESSION_get_master_key\<close> reads the key length through the null pointer and the
  process dies inside that call.
\<close>

definition master_key_snapshot :: "('c, 's, 'e) libssl \<Rightarrow> 'e \<Rightarrow> SslMasterKey" where
  "master_key_snapshot lib session =
     (case copy_out (lib_master_key lib session)
             (replicate SSL_MAX_MASTER_KEY_LENGTH 0) SSL_MAX_MASTER_KEY_LENGTH of
        (buf, n) \<Rightarrow> \<lparr>mk_value = buf, mk_length = n\<rparr>)"

definition read_master_key ::
  "('c, 's, 'e) libssl \<Rightarrow> process \<Rightarrow> 's \<Rightarrow> (SslMasterKey \<times> process) result" where
  "read_master_key lib g ssl =
     (if real_SSL_get_session g = NULL then Inl (NullCall, g)
      else let g1 = emit [LibCall ''SSL_get_session''] g
           in if real_SSL_SESSION_get_master_key g1 = NULL then Inl (NullCall, g1)
              else case lib_SSL_get_session lib ssl of
                     None \<Rightarrow> Inl (NullSession, emit [LibCall ''SSL_SESSION_get_master_key''] g1)
                   | Some session \<Rightarrow>
                       Inr (master_key_snapshot lib session,
                            emit [LibCall ''SSL_SESSION_get_master_key''] g1))"

text \<open>Lines 214-215: a zeroed \<open>SslClientRandom\<close> filled by \<open>_SSL_get_client_random\<close>.\<close>

definition client_random_snapshot :: "('c, 's, 'e) libssl \<Rightarrow> 's \<Rightarrow> SslClientRandom" where
  "client_random_snapshot lib ssl =
     (case copy_out (lib_client_random lib ssl)
             (replicate SSL3_RANDOM_SIZE 0) SSL3_RANDOM_SIZE of
        (buf, n) \<Rightarrow> \<lparr>cr_value = buf, cr_length = n\<rparr>)"

definition read_client_random ::
  "('c, 's, 'e) libssl \<Rightarrow> process \<Rightarrow> 's \<Rightarrow> (SslClientRandom \<times> process) result" where
  "read_client_random lib g ssl =
     (if real_SSL_get_client_random g = NULL then Inl (NullCall, g)
      else Inr (client_random_snapshot lib ssl, emit [LibCall ''SSL_get_client_random''] g))"

text \<open>
  The condition of line 212,
  \<open>(after_key.length > 0) && memcmp(after_key.value, before_key->value, after_key.length) != 0\<close>;
  \<open>&&\<close> does not evaluate \<open>memcmp\<close> when the length is 0.
\<close>

definition changed :: "SslMasterKey \<Rightarrow> SslMasterKey \<Rightarrow> bool option" where
  "changed before_key after_key =
     (if mk_length after_key > 0 then
        (case memcmp (mk_value after_key) (mk_value before_key) (mk_length after_key) of
           None \<Rightarrow> None
         | Some r \<Rightarrow> Some (r \<noteq> 0))
      else Some False)"

text \<open>\<open>logging_key\<close>, lines 207-224.\<close>

definition logging_key ::
  "('c, 's, 'e) libssl \<Rightarrow> process \<Rightarrow> 's \<Rightarrow> SslMasterKey \<Rightarrow> process result" where
  "logging_key lib g ssl before_key =
     (case read_master_key lib g ssl of
        Inl e \<Rightarrow> Inl e
      | Inr (after_key, g1) \<Rightarrow>
          (case changed before_key after_key of
             None \<Rightarrow> Inl (OutOfBounds, g1)
           | Some True \<Rightarrow>
               (case read_client_random lib g1 ssl of
                  Inl e \<Rightarrow> Inl e
                | Inr (crandom, g2) \<Rightarrow> KeyLogFile_raw_dump g2 crandom after_key)
           | Some False \<Rightarrow> Inr g1))"

text \<open>
  The body shared, statement for statement, by \<open>SSL_connect\<close> (lines 129-139),
  \<open>SSL_do_handshake\<close> (lines 149-159) and \<open>SSL_accept\<close> (lines 164-173).
\<close>

definition hooked_handshake ::
  "string \<Rightarrow> ptr \<Rightarrow> ('s \<Rightarrow> int \<times> 's \<times> string list) \<Rightarrow> ('c, 's, 'e) libssl \<Rightarrow> process \<Rightarrow> 's
     \<Rightarrow> (int \<times> 's \<times> process) result" where
  "hooked_handshake name fp f lib g ssl =
     (case read_master_key lib g ssl of
        Inl e \<Rightarrow> Inl e
      | Inr (before_key, g1) \<Rightarrow>
          (case call_handshake name fp f g1 ssl of
             Inl e \<Rightarrow> Inl e
           | Inr (ret, ssl', g2) \<Rightarrow>
               if ret = 1 then
                 (case logging_key lib g2 ssl' before_key of
                    Inl e \<Rightarrow> Inl e
                  | Inr g3 \<Rightarrow> Inr (ret, ssl', g3))
               else Inr (ret, ssl', g2)))"

text \<open>
  The four interposed entry points: \<open>SSL_new\<close> (lines 97-109), \<open>SSL_connect\<close> (lines
  122-140), \<open>SSL_do_handshake\<close> (lines 142-160) and \<open>SSL_accept\<close> (lines 162-174).
\<close>

definition SSL_new ::
  "os_env \<Rightarrow> ('c, 's, 'e) libssl \<Rightarrow> process \<Rightarrow> 'c \<Rightarrow> ('s \<times> process) result" where
  "SSL_new env lib g ctx =
     (case call_once env g of
        Inl e \<Rightarrow> Inl e
      | Inr g1 \<Rightarrow>
          (let g2 = (if real_SSL_CTX_set_keylog_callback g1 \<noteq> NULL
                     then emit [LibCall ''SSL_CTX_set_keylog_callback''] g1 else g1)
           in if real_SSL_new g2 = NULL then Inl (NullCall, g2)
              else Inr (lib_SSL_new lib ctx, emit [LibCall ''SSL_new''] g2)))"

definition SSL_connect ::
  "('c, 's, 'e) libssl \<Rightarrow> process \<Rightarrow> 's \<Rightarrow> (int \<times> 's \<times> process) result" where
  "SSL_connect lib g ssl =
     (if real_SSL_CTX_set_keylog_callback g \<noteq> NULL
      then call_handshake ''SSL_connect'' (real_SSL_connect g) (lib_SSL_connect lib) g ssl
      else hooked_handshake ''SSL_connect'' (real_SSL_connect g) (lib_SSL_connect lib) lib g ssl)"

definition SSL_do_handshake ::
  "('c, 's, 'e) libssl \<Rightarrow> process \<Rightarrow> 's \<Rightarrow> (int \<times> 's \<times> process) result" where
  "SSL_do_handshake lib g ssl =
     (if real_SSL_CTX_set_keylog_callback g \<noteq> NULL
      then call_handshake ''SSL_do_handshake'' (real_SSL_do_handshake g)
             (lib_SSL_do_handshake lib) g ssl
      else hooked_handshake ''SSL_do_handshake'' (real_SSL_do_handshake g)
             (lib_SSL_do_handshake lib) lib g ssl)"

definition SSL_accept ::
  "('c, 's, 'e) libssl \<Rightarrow> process \<Rightarrow> 's \<Rightarrow> (int \<times> 's \<times> process) result" where
  "SSL_accept lib g ssl =
     hooked_handshake ''SSL_accept'' (real_SSL_accept g) (lib_SSL_accept lib) lib g ssl"

section \<open>Runs of an application\<close>

text \<open>
  What an application does with the shim: a sequence of calls of the four interposed entry
  points, each on a context or an \<open>SSL\<close> object of its choice.
\<close>

datatype ('c, 's) app_call =
    App_SSL_new 'c
  | App_SSL_connect 's
  | App_SSL_do_handshake 's
  | App_SSL_accept 's

fun app_step ::
  "os_env \<Rightarrow> ('c, 's, 'e) libssl \<Rightarrow> process \<Rightarrow> ('c, 's) app_call \<Rightarrow> process result" where
  "app_step env lib g (App_SSL_new ctx) = map_sum id snd (SSL_new env lib g ctx)"
| "app_step env lib g (App_SSL_connect ssl) = map_sum id (snd \<circ> snd) (SSL_connect lib g ssl)"
| "app_step env lib g (App_SSL_do_handshake ssl) =
     map_sum id (snd \<circ> snd) (SSL_do_handshake lib g ssl)"
| "app_step env lib g (App_SSL_accept ssl) = map_sum id (snd \<circ> snd) (SSL_accept lib g ssl)"

fun run ::
  "os_env \<Rightarrow> ('c, 's, 'e) libssl \<Rightarrow> process \<Rightarrow> ('c, 's) app_call list \<Rightarrow> process result" where
  "run env lib g [] = Inr g"
| "run env lib g (c # cs) =
     (case app_step env lib g c of
        Inl e \<Rightarrow> Inl e
      | Inr g' \<Rightarrow> run env lib g' cs)"

text \<open>The state a call or a run ends in, whether it returned or died.\<close>

definition outcome :: "('a \<Rightarrow> process) \<Rightarrow> 'a result \<Rightarrow> process" where
  "outcome sel r = (case r of Inl (f, g) \<Rightarrow> g | Inr x \<Rightarrow> sel x)"

definition final_state :: "process result \<Rightarrow> process" where
  "final_state r = outcome id r"

text \<open>Projections of a trace.\<close>

fun writes :: "event list \<Rightarrow> (int \<times> string) list" where
  "writes [] = []"
| "writes (Sys_write fd bs # evs) = (fd, bs) # writes evs"
| "writes (ev # evs) = writes evs"

fun opens :: "event list \<Rightarrow> string list" where
  "opens [] = []"
| "opens (Sys_open path # evs) = path # opens evs"
| "opens (ev # evs) = opens evs"

fun closes :: "event list \<Rightarrow> int list" where
  "closes [] = []"
| "closes (Sys_close fd # evs) = fd # closes evs"
| "closes (ev # evs) = closes evs"

section \<open>Notions of the specification\<close>

text \<open>
  The invariant of the resolved entry points: every mandatory entry of the table is populated.
\<close>

definition hooks_resolved :: "process \<Rightarrow> bool" where
  "hooks_resolved g \<longleftrightarrow>
     real_SSL_new g \<noteq> NULL \<and> real_SSL_connect g \<noteq> NULL \<and> real_SSL_do_handshake g \<noteq> NULL \<and>
     real_SSL_accept g \<noteq> NULL \<and> real_SSL_get_client_random g \<noteq> NULL \<and>
     real_SSL_SESSION_get_master_key g \<noteq> NULL \<and> real_SSL_get_session g \<noteq> NULL"

datatype CaptureMode = CallbackMode | HookMode

definition capture_mode :: "process \<Rightarrow> CaptureMode" where
  "capture_mode g =
     (if real_SSL_CTX_set_keylog_callback g \<noteq> NULL then CallbackMode else HookMode)"

text \<open>
  The deduplication predicate in the words of the specification: the length of \<open>after\<close> is
  positive and its content differs from that of \<open>before\<close> over that many bytes.
\<close>

definition differs :: "SslMasterKey \<Rightarrow> SslMasterKey \<Rightarrow> bool" where
  "differs before_key after_key \<longleftrightarrow>
     mk_length after_key > 0 \<and>
     take (mk_length after_key) (mk_value after_key) \<noteq>
       take (mk_length after_key) (mk_value before_key)"

text \<open>A snapshot as the data model has it: a buffer of fixed capacity and a length within it.\<close>

definition wf_master_key :: "SslMasterKey \<Rightarrow> bool" where
  "wf_master_key k \<longleftrightarrow>
     length (mk_value k) = SSL_MAX_MASTER_KEY_LENGTH \<and> mk_length k \<le> SSL_MAX_MASTER_KEY_LENGTH"

definition wf_client_random :: "SslClientRandom \<Rightarrow> bool" where
  "wf_client_random r \<longleftrightarrow>
     length (cr_value r) = SSL3_RANDOM_SIZE \<and> cr_length r \<le> SSL3_RANDOM_SIZE"

text \<open>The secrets as the shim sees them: cut to the capacity of its buffers.\<close>

definition master_key_of :: "('c, 's, 'e) libssl \<Rightarrow> 'e \<Rightarrow> byte list" where
  "master_key_of lib session = take SSL_MAX_MASTER_KEY_LENGTH (lib_master_key lib session)"

definition client_random_of :: "('c, 's, 'e) libssl \<Rightarrow> 's \<Rightarrow> byte list" where
  "client_random_of lib ssl = take SSL3_RANDOM_SIZE (lib_client_random lib ssl)"

text \<open>
  The deduplication test on the secrets themselves: the key after the call is not empty,
  and it is not what the zeroed 48-byte buffer filled with the key before the call holds in
  its first bytes.
\<close>

definition key_changed :: "byte list \<Rightarrow> byte list \<Rightarrow> bool" where
  "key_changed old_key new_key \<longleftrightarrow>
     new_key \<noteq> [] \<and>
     new_key \<noteq> take (length new_key)
                 (old_key @ replicate (SSL_MAX_MASTER_KEY_LENGTH - length old_key) 0)"

text \<open>
  The events of one snapshot, of the callbacks a real handshake triggers, and of the legacy
  logging step on an object \<open>ssl\<close> whose session is \<open>session\<close>.
\<close>

definition snapshot_events :: "event list" where
  "snapshot_events = [LibCall ''SSL_get_session'', LibCall ''SSL_SESSION_get_master_key'']"

definition callback_events :: "process \<Rightarrow> string list \<Rightarrow> event list" where
  "callback_events g lines =
     (if capture_mode g = CallbackMode \<and> KeyLogFile_fd g \<ge> 0
      then concat (map (\<lambda>line. [Sys_write (KeyLogFile_fd g) line,
                                 Sys_write (KeyLogFile_fd g) ''\<newline>'']) lines)
      else [])"

definition logging_events ::
  "('c, 's, 'e) libssl \<Rightarrow> process \<Rightarrow> 's \<Rightarrow> 'e \<Rightarrow> SslMasterKey \<Rightarrow> event list" where
  "logging_events lib g ssl session before_key =
     snapshot_events @
     (if differs before_key (master_key_snapshot lib session) then
        LibCall ''SSL_get_client_random'' #
        (if client_random_of lib ssl \<noteq> []
         then [Sys_write (KeyLogFile_fd g)
                 (KeyLogLine (client_random_of lib ssl) (master_key_of lib session))]
         else [])
      else [])"

text \<open>
  \<open>undisturbed g g'\<close>: from \<open>g\<close> to \<open>g'\<close> the writer's variables are untouched, no file was
  opened or closed, and whatever was written was written to the writer's descriptor.
\<close>

definition undisturbed :: "process \<Rightarrow> process \<Rightarrow> bool" where
  "undisturbed g g' \<longleftrightarrow>
     openssl_init_flag g' = openssl_init_flag g \<and>
     KeyLogFile_fd g' = KeyLogFile_fd g \<and>
     atexit_handlers g' = atexit_handlers g \<and>
     opens (trace g') = opens (trace g) \<and>
     closes (trace g') = closes (trace g) \<and>
     (\<exists>ws. writes (trace g') = writes (trace g) @ ws \<and>
           list_all (\<lambda>w. fst w = KeyLogFile_fd g) ws)"

text \<open>
  \<open>same_files g g'\<close>: as \<open>undisturbed\<close>, and nothing was written either. \<open>dl_only\<close>: a
  list of events without a system call on a file.
\<close>

definition same_files :: "process \<Rightarrow> process \<Rightarrow> bool" where
  "same_files g g' \<longleftrightarrow>
     openssl_init_flag g' = openssl_init_flag g \<and>
     KeyLogFile_fd g' = KeyLogFile_fd g \<and>
     atexit_handlers g' = atexit_handlers g \<and>
     opens (trace g') = opens (trace g) \<and>
     closes (trace g') = closes (trace g) \<and>
     writes (trace g') = writes (trace g)"

definition dl_only :: "event list \<Rightarrow> bool" where
  "dl_only evs \<longleftrightarrow> opens evs = [] \<and> closes evs = [] \<and> writes evs = []"

text \<open>
  The writer is off: no descriptor, no exit handler, no file opened or closed, and every
  write that was issued names the descriptor -1, which stands for no file.
\<close>

definition logging_off :: "process \<Rightarrow> bool" where
  "logging_off g \<longleftrightarrow>
     KeyLogFile_fd g = - 1 \<and> atexit_handlers g = 0 \<and>
     opens (trace g) = [] \<and> closes (trace g) = [] \<and>
     list_all (\<lambda>w. fst w = - 1) (writes (trace g))"


text \<open>
  What the legacy path hands to \<open>write\<close> around a successful handshake: \<open>session\<close> is the
  session of the object before the call, \<open>ssl'\<close> the object after it and \<open>session'\<close> its
  session then.
\<close>

definition hook_log ::
  "('c, 's, 'e) libssl \<Rightarrow> process \<Rightarrow> 'e \<Rightarrow> 's \<Rightarrow> 'e \<Rightarrow> (int \<times> string) list" where
  "hook_log lib g session ssl' session' =
     (if key_changed (master_key_of lib session) (master_key_of lib session') \<and>
         client_random_of lib ssl' \<noteq> []
      then [(KeyLogFile_fd g,
             KeyLogLine (client_random_of lib ssl') (master_key_of lib session'))]
      else [])"

section \<open>Concrete instances\<close>

text \<open>
  A library over \<open>SSL\<close> objects that are either before a handshake (\<open>False\<close>) or through
  it (\<open>True\<close>), each with a session: every handshake returns \<open>ret\<close> and hands \<open>secrets\<close>
  to a registered callback; the session of the object holds \<open>key_before\<close> before the
  handshake (a session set for resumption, or left by an earlier handshake) and
  \<open>key_after\<close> after it.
\<close>

definition demo_lib ::
  "byte list \<Rightarrow> byte list \<Rightarrow> byte list \<Rightarrow> int \<Rightarrow> string list \<Rightarrow> (unit, bool, bool) libssl" where
  "demo_lib key_before key_after crandom ret secrets =
     \<lparr> lib_SSL_new = (\<lambda>ctx. False),
       lib_SSL_connect = (\<lambda>ssl. (ret, True, secrets)),
       lib_SSL_do_handshake = (\<lambda>ssl. (ret, True, secrets)),
       lib_SSL_accept = (\<lambda>ssl. (ret, True, secrets)),
       lib_SSL_get_session = (\<lambda>ssl. Some ssl),
       lib_master_key = (\<lambda>session. if session then key_after else key_before),
       lib_client_random = (\<lambda>ssl. crandom) \<rparr>"

text \<open>
  The same library on an object fresh from \<open>SSL_new\<close>: it has no session until a handshake
  has given it one.
\<close>

definition fresh_lib ::
  "byte list \<Rightarrow> byte list \<Rightarrow> int \<Rightarrow> string list \<Rightarrow> (unit, bool, bool) libssl" where
  "fresh_lib key_after crandom ret secrets =
     (demo_lib [] key_after crandom ret secrets)
       \<lparr> lib_SSL_get_session := (\<lambda>ssl. if ssl then Some True else None) \<rparr>"

text \<open>A process after initialisation, with descriptor \<open>fd\<close> and callback entry point \<open>cb\<close>.\<close>

definition demo_process :: "int \<Rightarrow> ptr \<Rightarrow> process" where
  "demo_process fd cb =
     \<lparr> openssl_init_flag = True,
       real_SSL_new = 1, real_SSL_connect = 2, real_SSL_do_handshake = 3,
       real_SSL_accept = 4, real_SSL_get_client_random = 5,
       real_SSL_SESSION_get_master_key = 6, real_SSL_get_session = 7,
       real_SSL_CTX_set_keylog_callback = cb,
       KeyLogFile_fd = fd, atexit_handlers = (if fd \<ge> 0 then 1 else 0), trace = [] \<rparr>"

text \<open>
  An environment with the GNU C library, in which every mandatory symbol is found behind
  the shim; the optional one is found exactly when \<open>has_callback\<close>; \<open>handle\<close> is what
  \<open>dlopen("libssl.so")\<close> returns, and \<open>path\<close> the value of \<open>SSLKEYLOGFILE\<close>.
\<close>

definition demo_env :: "bool \<Rightarrow> ptr \<Rightarrow> string option \<Rightarrow> os_env" where
  "demo_env has_callback handle path =
     \<lparr> env_dlsym_next =
         (\<lambda>symb. if symb = ''SSL_CTX_set_keylog_callback'' \<and> \<not> has_callback then 0 else 1),
       env_dlopen = (\<lambda>name. handle),
       env_dlsym = (\<lambda>h symb. 0),
       env_dlclose_null_returns = False,
       env_getenv = (\<lambda>name. if name = ''SSLKEYLOGFILE'' then path else None),
       env_open = (\<lambda>name. 3) \<rparr>"

text \<open>The example of the specification: client random 00..1f, master key a0..cf.\<close>

definition example_client_random :: "byte list" where
  "example_client_random =
     [0x00, 0x01, 0x02, 0x03, 0x04, 0x05, 0x06, 0x07, 0x08, 0x09, 0x0A, 0x0B, 0x0C, 0x0D,
      0x0E, 0x0F, 0x10, 0x11, 0x12, 0x13, 0x14, 0x15, 0x16, 0x17, 0x18, 0x19, 0x1A, 0x1B,
      0x1C, 0x1D, 0x1E, 0x1F]"

definition example_master_key :: "byte list" where
  "example_master_key =
     [0xA0, 0xA1, 0xA2, 0xA3, 0xA4, 0xA5, 0xA6, 0xA7, 0xA8, 0xA9, 0xAA, 0xAB, 0xAC, 0xAD,
      0xAE, 0xAF, 0xB0, 0xB1, 0xB2, 0xB3, 0xB4, 0xB5, 0xB6, 0xB7, 0xB8, 0xB9, 0xBA, 0xBB,
      0xBC, 0xBD, 0xBE, 0xBF, 0xC0, 0xC1, 0xC2, 0xC3, 0xC4, 0xC5, 0xC6, 0xC7, 0xC8, 0xC9,
      0xCA, 0xCB, 0xCC, 0xCD, 0xCE, 0xCF]"

section \<open>Lemmas about the libc helpers and the line buffer\<close>

lemma memcmp_take:
  "n \<le> length s1 \<Longrightarrow> n \<le> length s2 \<Longrightarrow>
     \<exists>r. memcmp s1 s2 n = Some r \<and> (r \<noteq> 0) = (take n s1 \<noteq> take n s2)"
proof (induction n arbitrary: s1 s2)
  case 0
  then show ?case by simp
next
  case (Suc n)
  then obtain a t1 b t2 where s: "s1 = a # t1" "s2 = b # t2"
    by (cases s1; cases s2) auto
  with Suc.prems have "n \<le> length t1" and "n \<le> length t2"
    by simp_all
  from Suc.IH [OF this] show ?case
    unfolding s by (cases "a = b") auto
qed

lemma store_bytes_Some:
  "p + length bs \<le> length buf \<Longrightarrow>
     store_bytes buf p bs = Some (take p buf @ bs @ drop (p + length bs) buf)"
  by (simp add: store_bytes_def)

lemma hex_loop_correct:
  "n \<le> length v \<Longrightarrow> i \<le> n \<Longrightarrow> p + 2 * (n - i) < length line \<Longrightarrow>
     \<exists>line'. hex_loop line p v i n = Some (line', p + 2 * (n - i)) \<and>
             length line' = length line \<and>
             take (p + 2 * (n - i)) line' = take p line @ hex (drop i (take n v))"
proof (induction line p v i n rule: hex_loop.induct)
  case (1 line p v i n)
  show ?case
  proof (cases "i < n")
    case False
    then have "hex_loop line p v i n = Some (line, p)"
      by (subst hex_loop.simps) simp
    with False "1.prems" show ?thesis
      by (simp add: hex_def)
  next
    case True
    define line1 where
      "line1 = take p line @ sprintf_02x (v ! i) @ drop (p + length (sprintf_02x (v ! i))) line"
    have iv: "i < length v" using True "1.prems" by simp
    have fits: "p + length (sprintf_02x (v ! i)) \<le> length line"
      using True "1.prems" by (simp add: sprintf_02x_def)
    have st: "store_bytes line p (sprintf_02x (v ! i)) = Some line1"
      using store_bytes_Some [OF fits] by (simp only: line1_def)
    have len1: "length line1 = length line"
      using fits by (simp add: line1_def sprintf_02x_def)
    have bound: "p + 2 + 2 * (n - (i + 1)) < length line1"
      using True "1.prems" len1 by simp
    from "1.IH" [OF True iv st "1.prems"(1) _ bound] True
    obtain line' where
      run: "hex_loop line1 (p + 2) v (i + 1) n = Some (line', p + 2 + 2 * (n - (i + 1)))" and
      len: "length line' = length line1" and
      pre: "take (p + 2 + 2 * (n - (i + 1))) line' = take (p + 2) line1 @ hex (drop (i + 1) (take n v))"
      by auto
    have off: "p + 2 + 2 * (n - (i + 1)) = p + 2 * (n - i)"
      using True by simp
    have t1: "take (p + 2) line1 = take p line @ hex_byte (v ! i)"
      using fits by (simp add: line1_def sprintf_02x_def hex_byte_def)
    have dr: "drop i (take n v) = v ! i # drop (i + 1) (take n v)"
      using True iv "1.prems"(1) by (simp add: Cons_nth_drop_Suc [symmetric])
    have "hex_loop line p v i n = Some (line', p + 2 * (n - i))"
      using True iv st run off by (simp add: hex_loop.simps [of line p v i n])
    moreover have "length line' = length line" using len len1 by simp
    moreover have "take (p + 2 * (n - i)) line' = take p line @ hex (drop i (take n v))"
    proof -
      have "take (p + 2 * (n - i)) line' = take (p + 2 + 2 * (n - (i + 1))) line'"
        by (simp only: off)
      also have "\<dots> = take (p + 2) line1 @ hex (drop (i + 1) (take n v))"
        by (rule pre)
      also have "\<dots> = take p line @ hex_byte (v ! i) @ hex (drop (i + 1) (take n v))"
        by (simp only: t1 append_assoc)
      also have "\<dots> = take p line @ hex (v ! i # drop (i + 1) (take n v))"
        by (simp add: hex_def)
      also have "\<dots> = take p line @ hex (drop i (take n v))"
        by (simp only: dr [symmetric])
      finally show ?thesis .
    qed
    ultimately show ?thesis by blast
  qed
qed

lemma take_store:
  "p + length bs \<le> length buf \<Longrightarrow>
     take (p + length bs) (take p buf @ bs @ drop (p + length bs) buf) = take p buf @ bs"
  by simp

lemma length_store:
  "p + length bs \<le> length buf \<Longrightarrow>
     length (take p buf @ bs @ drop (p + length bs) buf) = length buf"
  by simp

lemma length_CLIENT_RANDOM: "length CLIENT_RANDOM = 14"
  by (simp add: CLIENT_RANDOM_def)

lemma CLIENT_RANDOM_LINE_LENGTH_eq: "CLIENT_RANDOM_LINE_LENGTH = 177"
  by (simp add: CLIENT_RANDOM_LINE_LENGTH_def CLIENT_RANDOM_LEN_def length_CLIENT_RANDOM
      SSL3_RANDOM_SIZE_def SSL_MAX_MASTER_KEY_LENGTH_def)

lemma format_line_correct:
  assumes "cr_length cr \<le> length (cr_value cr)" and "cr_length cr \<le> SSL3_RANDOM_SIZE"
    and "mk_length mk \<le> length (mk_value mk)" and "mk_length mk \<le> SSL_MAX_MASTER_KEY_LENGTH"
  shows "format_line cr mk =
           Some (KeyLogLine (take (cr_length cr) (cr_value cr)) (take (mk_length mk) (mk_value mk)))"
proof -
  define n1 where "n1 = cr_length cr"
  define n2 where "n2 = mk_length mk"
  define line0 where "line0 = replicate CLIENT_RANDOM_LINE_LENGTH (CHR 0x00)"
  define line1 where "line1 = take 0 line0 @ CLIENT_RANDOM @ drop (0 + length CLIENT_RANDOM) line0"
  have n1: "n1 \<le> length (cr_value cr)" "n1 \<le> 32"
    using assms by (simp_all add: n1_def SSL3_RANDOM_SIZE_def)
  have n2: "n2 \<le> length (mk_value mk)" "n2 \<le> 48"
    using assms by (simp_all add: n2_def SSL_MAX_MASTER_KEY_LENGTH_def)
  have len0: "length line0 = 177"
    by (simp add: line0_def CLIENT_RANDOM_LINE_LENGTH_eq)
  have "0 + length CLIENT_RANDOM \<le> length line0"
    by (simp add: len0 length_CLIENT_RANDOM)
  then have s1: "store_bytes line0 0 CLIENT_RANDOM = Some line1"
    unfolding line1_def by (rule store_bytes_Some)
  have len1: "length line1 = 177"
    using len0 by (simp add: line1_def length_CLIENT_RANDOM)
  have pre1: "take 14 line1 = CLIENT_RANDOM"
    by (simp add: line1_def length_CLIENT_RANDOM)
  have "14 + 2 * (n1 - 0) < length line1" using n1 len1 by simp
  from hex_loop_correct [OF n1(1) _ this]
  obtain line2 where
    h1: "hex_loop line1 14 (cr_value cr) 0 n1 = Some (line2, 14 + 2 * n1)" and
    len2: "length line2 = 177" and
    pre2: "take (14 + 2 * n1) line2 = CLIENT_RANDOM @ hex (take n1 (cr_value cr))"
    using len1 pre1 by auto
  define p2 where "p2 = 14 + 2 * n1"
  define line3 where "line3 = take p2 line2 @ '' '' @ drop (p2 + length '' '') line2"
  have fit2: "p2 + length '' '' \<le> length line2"
    using len2 n1 by (simp add: p2_def)
  then have s2: "store_bytes line2 p2 '' '' = Some line3"
    unfolding line3_def by (rule store_bytes_Some)
  have len3: "length line3 = 177"
    using length_store [OF fit2] len2 by (simp only: line3_def)
  have "take (p2 + length '' '') line3 = take p2 line2 @ '' ''"
    using take_store [OF fit2] by (simp only: line3_def)
  then have pre3: "take (p2 + 1) line3 = (CLIENT_RANDOM @ hex (take n1 (cr_value cr))) @ '' ''"
    using pre2 by (simp add: p2_def [symmetric])
  have "p2 + 1 + 2 * (n2 - 0) < length line3" using n1 n2 len3 by (simp add: p2_def)
  from hex_loop_correct [OF n2(1) _ this]
  obtain line4 where
    h2: "hex_loop line3 (p2 + 1) (mk_value mk) 0 n2 = Some (line4, p2 + 1 + 2 * n2)" and
    len4: "length line4 = 177" and
    pre4: "take (p2 + 1 + 2 * n2) line4 =
             ((CLIENT_RANDOM @ hex (take n1 (cr_value cr))) @ '' '') @ hex (take n2 (mk_value mk))"
    using len3 pre3 by auto
  define p4 where "p4 = p2 + 1 + 2 * n2"
  define line5 where "line5 = take p4 line4 @ ''\<newline>'' @ drop (p4 + length ''\<newline>'') line4"
  have p4: "p4 + 1 \<le> 177" using n1 n2 by (simp add: p4_def p2_def)
  then have fit4: "p4 + length ''\<newline>'' \<le> length line4"
    using len4 by simp
  then have s3: "store_bytes line4 p4 ''\<newline>'' = Some line5"
    unfolding line5_def by (rule store_bytes_Some)
  have "take (p4 + length ''\<newline>'') line5 = take p4 line4 @ ''\<newline>''"
    using take_store [OF fit4] by (simp only: line5_def)
  moreover have "take p4 line4 =
      ((CLIENT_RANDOM @ hex (take n1 (cr_value cr))) @ '' '') @ hex (take n2 (mk_value mk))"
    unfolding p4_def by (rule pre4)
  ultimately have pre5: "take (p4 + 1) line5 =
      (((CLIENT_RANDOM @ hex (take n1 (cr_value cr))) @ '' '') @ hex (take n2 (mk_value mk))) @ ''\<newline>''"
    by simp
  have h1': "hex_loop line1 CLIENT_RANDOM_LEN (cr_value cr) 0 (cr_length cr) = Some (line2, p2)"
    using h1 by (simp only: CLIENT_RANDOM_LEN_def length_CLIENT_RANDOM p2_def n1_def)
  have h2': "hex_loop line3 (p2 + 1) (mk_value mk) 0 (mk_length mk) = Some (line4, p4)"
    using h2 by (simp only: p4_def n2_def)
  have "format_line cr mk = Some (take (p4 + 1) line5)"
    using h2' by (simp add: format_line_def line0_def [symmetric] s1 h1' s2 s3)
  then show ?thesis
    using pre5 by (simp add: KeyLogLine_def CLIENT_RANDOM_def n1_def n2_def)
qed

section \<open>What the interceptors do once the entry points are resolved\<close>

lemma emit_fields [simp]:
  "openssl_init_flag (emit evs g) = openssl_init_flag g"
  "real_SSL_new (emit evs g) = real_SSL_new g"
  "real_SSL_connect (emit evs g) = real_SSL_connect g"
  "real_SSL_do_handshake (emit evs g) = real_SSL_do_handshake g"
  "real_SSL_accept (emit evs g) = real_SSL_accept g"
  "real_SSL_get_client_random (emit evs g) = real_SSL_get_client_random g"
  "real_SSL_SESSION_get_master_key (emit evs g) = real_SSL_SESSION_get_master_key g"
  "real_SSL_get_session (emit evs g) = real_SSL_get_session g"
  "real_SSL_CTX_set_keylog_callback (emit evs g) = real_SSL_CTX_set_keylog_callback g"
  "KeyLogFile_fd (emit evs g) = KeyLogFile_fd g"
  "atexit_handlers (emit evs g) = atexit_handlers g"
  "trace (emit evs g) = trace g @ evs"
  by (simp_all add: emit_def)

lemma emit_emit [simp]: "emit evs2 (emit evs1 g) = emit (evs1 @ evs2) g"
  by (simp add: emit_def)

lemma emit_Nil [simp]: "emit [] g = g"
  by (simp add: emit_def)

lemma hooks_resolved_emit [simp]: "hooks_resolved (emit evs g) = hooks_resolved g"
  by (simp add: hooks_resolved_def)

lemma capture_mode_emit [simp]: "capture_mode (emit evs g) = capture_mode g"
  by (simp add: capture_mode_def)

lemma writes_append [simp]: "writes (xs @ ys) = writes xs @ writes ys"
  by (induction xs rule: writes.induct) simp_all

lemma opens_append [simp]: "opens (xs @ ys) = opens xs @ opens ys"
  by (induction xs rule: opens.induct) simp_all

lemma closes_append [simp]: "closes (xs @ ys) = closes xs @ closes ys"
  by (induction xs rule: closes.induct) simp_all

lemma copy_out_zeroed:
  "0 < N \<Longrightarrow>
     copy_out secret (replicate N 0) N =
       (take N secret @ replicate (N - length (take N secret)) 0, length (take N secret))"
  by (simp add: copy_out_def Let_def min_def)

lemma master_key_snapshot_eq:
  "master_key_snapshot lib ssl =
     \<lparr> mk_value = master_key_of lib ssl @
                   replicate (SSL_MAX_MASTER_KEY_LENGTH - length (master_key_of lib ssl)) 0,
       mk_length = length (master_key_of lib ssl) \<rparr>"
  by (simp add: master_key_snapshot_def master_key_of_def copy_out_zeroed
      SSL_MAX_MASTER_KEY_LENGTH_def)

lemma client_random_snapshot_eq:
  "client_random_snapshot lib ssl =
     \<lparr> cr_value = client_random_of lib ssl @
                   replicate (SSL3_RANDOM_SIZE - length (client_random_of lib ssl)) 0,
       cr_length = length (client_random_of lib ssl) \<rparr>"
  by (simp add: client_random_snapshot_def client_random_of_def copy_out_zeroed
      SSL3_RANDOM_SIZE_def)

lemma wf_master_key_snapshot: "wf_master_key (master_key_snapshot lib ssl)"
  by (simp add: master_key_snapshot_eq wf_master_key_def master_key_of_def)

lemma wf_client_random_snapshot: "wf_client_random (client_random_snapshot lib ssl)"
  by (simp add: client_random_snapshot_eq wf_client_random_def client_random_of_def)

lemma taken_master_key:
  "take (mk_length (master_key_snapshot lib ssl)) (mk_value (master_key_snapshot lib ssl)) =
     master_key_of lib ssl"
  by (simp add: master_key_snapshot_eq)

lemma taken_client_random:
  "take (cr_length (client_random_snapshot lib ssl)) (cr_value (client_random_snapshot lib ssl)) =
     client_random_of lib ssl"
  by (simp add: client_random_snapshot_eq)

lemma changed_differs:
  assumes "wf_master_key before_key" and "wf_master_key after_key"
  shows "changed before_key after_key = Some (differs before_key after_key)"
proof (cases "mk_length after_key > 0")
  case False
  then show ?thesis by (simp add: changed_def differs_def)
next
  case True
  have "mk_length after_key \<le> length (mk_value after_key)"
    and "mk_length after_key \<le> length (mk_value before_key)"
    using assms by (simp_all add: wf_master_key_def)
  from memcmp_take [OF this]
  obtain r where "memcmp (mk_value after_key) (mk_value before_key) (mk_length after_key) = Some r"
    and "(r \<noteq> 0) = (take (mk_length after_key) (mk_value after_key) \<noteq>
                      take (mk_length after_key) (mk_value before_key))"
    by blast
  with True show ?thesis by (simp add: changed_def differs_def)
qed

lemma read_master_key_resolved:
  "hooks_resolved g \<Longrightarrow> lib_SSL_get_session lib ssl = Some session \<Longrightarrow>
     read_master_key lib g ssl = Inr (master_key_snapshot lib session, emit snapshot_events g)"
  by (simp add: read_master_key_def hooks_resolved_def snapshot_events_def Let_def)

lemma read_master_key_no_session:
  "hooks_resolved g \<Longrightarrow> lib_SSL_get_session lib ssl = None \<Longrightarrow>
     read_master_key lib g ssl = Inl (NullSession, emit snapshot_events g)"
  by (simp add: read_master_key_def hooks_resolved_def snapshot_events_def Let_def)

lemma read_client_random_resolved:
  "hooks_resolved g \<Longrightarrow>
     read_client_random lib g ssl =
       Inr (client_random_snapshot lib ssl, emit [LibCall ''SSL_get_client_random''] g)"
  by (simp add: read_client_random_def hooks_resolved_def)

lemma raw_dump_wf:
  assumes "wf_client_random cr" and "wf_master_key mk"
  shows "KeyLogFile_raw_dump g cr mk =
           Inr (emit (if cr_length cr \<noteq> 0 \<and> mk_length mk \<noteq> 0
                      then [Sys_write (KeyLogFile_fd g)
                              (KeyLogLine (take (cr_length cr) (cr_value cr))
                                          (take (mk_length mk) (mk_value mk)))]
                      else []) g)"
proof -
  have "format_line cr mk =
          Some (KeyLogLine (take (cr_length cr) (cr_value cr)) (take (mk_length mk) (mk_value mk)))"
    using assms by (intro format_line_correct) (simp_all add: wf_client_random_def wf_master_key_def)
  then show ?thesis by (simp add: KeyLogFile_raw_dump_def)
qed

lemma raw_dump_snapshots:
  "KeyLogFile_raw_dump g (client_random_snapshot lib ssl) (master_key_snapshot lib session) =
     Inr (emit (if client_random_of lib ssl \<noteq> [] \<and> master_key_of lib session \<noteq> []
                then [Sys_write (KeyLogFile_fd g)
                        (KeyLogLine (client_random_of lib ssl) (master_key_of lib session))]
                else []) g)"
proof -
  have "cr_length (client_random_snapshot lib ssl) = length (client_random_of lib ssl)"
    and "mk_length (master_key_snapshot lib session) = length (master_key_of lib session)"
    by (simp_all add: client_random_snapshot_eq master_key_snapshot_eq)
  then have "(cr_length (client_random_snapshot lib ssl) \<noteq> 0 \<and>
              mk_length (master_key_snapshot lib session) \<noteq> 0) =
             (client_random_of lib ssl \<noteq> [] \<and> master_key_of lib session \<noteq> [])"
    by simp
  then show ?thesis
    using raw_dump_wf [OF wf_client_random_snapshot wf_master_key_snapshot,
        of g lib ssl lib session]
    by (simp only: taken_client_random taken_master_key)
qed

lemma differs_nonempty:
  "differs before_key (master_key_snapshot lib session) \<Longrightarrow> master_key_of lib session \<noteq> []"
  by (auto simp: differs_def master_key_snapshot_eq)

lemma differs_snapshots:
  "differs (master_key_snapshot lib session) (master_key_snapshot lib session') =
     key_changed (master_key_of lib session) (master_key_of lib session')"
proof -
  have "length (master_key_of lib session') \<le> SSL_MAX_MASTER_KEY_LENGTH"
    by (simp add: master_key_of_def)
  then show ?thesis
    by (cases "master_key_of lib session' = []")
      (simp_all add: differs_def key_changed_def master_key_snapshot_eq)
qed

lemma logging_key_resolved:
  assumes "hooks_resolved g" and "wf_master_key before_key"
    and "lib_SSL_get_session lib ssl = Some session"
  shows "logging_key lib g ssl before_key =
           Inr (emit (logging_events lib g ssl session before_key) g)"
proof (cases "differs before_key (master_key_snapshot lib session)")
  case False
  then show ?thesis
    using assms
    by (simp add: logging_key_def read_master_key_resolved changed_differs
        wf_master_key_snapshot logging_events_def)
next
  case True
  with differs_nonempty [OF True] show ?thesis
    using assms
    by (simp add: logging_key_def read_master_key_resolved changed_differs
        wf_master_key_snapshot logging_events_def read_client_random_resolved
        raw_dump_snapshots)
qed


lemma fold_callback:
  "fold (\<lambda>line g'. KeyLogFile_callback g' line) lines g =
     emit (if KeyLogFile_fd g \<ge> 0
           then concat (map (\<lambda>line. [Sys_write (KeyLogFile_fd g) line,
                                      Sys_write (KeyLogFile_fd g) ''\<newline>'']) lines)
           else []) g"
  by (induction lines arbitrary: g) (simp_all add: KeyLogFile_callback_def)

lemma invoke_keylog_callbacks_eq:
  "invoke_keylog_callbacks g lines = emit (callback_events g lines) g"
  by (simp add: invoke_keylog_callbacks_def callback_events_def capture_mode_def fold_callback)

lemma callback_events_emit [simp]: "callback_events (emit evs g) lines = callback_events g lines"
  by (simp add: callback_events_def)

lemma logging_events_emit [simp]:
  "logging_events lib (emit evs g) ssl session k = logging_events lib g ssl session k"
  by (simp add: logging_events_def)

lemma call_handshake_resolved:
  "fp \<noteq> NULL \<Longrightarrow> f ssl = (ret, ssl', lines) \<Longrightarrow>
     call_handshake name fp f g ssl =
       Inr (ret, ssl', emit (LibCall name # callback_events g lines) g)"
  by (simp add: call_handshake_def invoke_keylog_callbacks_eq)

lemma hooked_handshake_no_session:
  assumes "hooks_resolved g" and "lib_SSL_get_session lib ssl = None"
  shows "hooked_handshake name fp f lib g ssl = Inl (NullSession, emit snapshot_events g)"
  using assms by (simp add: hooked_handshake_def read_master_key_no_session)


lemma hooked_handshake_success:
  assumes "hooks_resolved g" and "fp \<noteq> NULL" and "lib_SSL_get_session lib ssl = Some session"
    and "f ssl = (1, ssl', lines)" and "lib_SSL_get_session lib ssl' = Some session'"
  shows "hooked_handshake name fp f lib g ssl =
           Inr (1, ssl',
                emit (snapshot_events @ LibCall name # callback_events g lines @
                      logging_events lib g ssl' session' (master_key_snapshot lib session)) g)"
  using assms
  by (simp add: hooked_handshake_def read_master_key_resolved call_handshake_resolved
      logging_key_resolved wf_master_key_snapshot)


lemma callback_events_hook [simp]:
  "capture_mode g = HookMode \<Longrightarrow> callback_events g lines = []"
  by (simp add: callback_events_def)

lemma writes_snapshot_events [simp]: "writes snapshot_events = []"
  by (simp add: snapshot_events_def)

lemma logging_events_snapshots:
  "logging_events lib g ssl' session' (master_key_snapshot lib session) =
     snapshot_events @
     (if key_changed (master_key_of lib session) (master_key_of lib session') then
        LibCall ''SSL_get_client_random'' #
        (if client_random_of lib ssl' \<noteq> []
         then [Sys_write (KeyLogFile_fd g)
                 (KeyLogLine (client_random_of lib ssl') (master_key_of lib session'))]
         else [])
      else [])"
  by (simp add: logging_events_def differs_snapshots)

lemma writes_logging_events:
  "writes (logging_events lib g ssl' session' (master_key_snapshot lib session)) =
     hook_log lib g session ssl' session'"
  by (simp add: logging_events_snapshots hook_log_def)

lemma resolvedD:
  assumes "hooks_resolved g"
  shows "real_SSL_connect g \<noteq> NULL" and "real_SSL_do_handshake g \<noteq> NULL"
    and "real_SSL_accept g \<noteq> NULL" and "real_SSL_new g \<noteq> NULL"
  using assms by (simp_all add: hooks_resolved_def)

lemma hook_modeD: "capture_mode g = HookMode \<Longrightarrow> real_SSL_CTX_set_keylog_callback g = NULL"
  by (simp add: capture_mode_def split: if_splits)


lemma hook_mode_bodies:
  assumes "capture_mode g = HookMode"
  shows "SSL_connect lib g ssl =
           hooked_handshake ''SSL_connect'' (real_SSL_connect g) (lib_SSL_connect lib) lib g ssl"
    and "SSL_do_handshake lib g ssl =
           hooked_handshake ''SSL_do_handshake'' (real_SSL_do_handshake g)
             (lib_SSL_do_handshake lib) lib g ssl"
  using assms by (simp_all add: SSL_connect_def SSL_do_handshake_def hook_modeD)



lemma hook_success:
  assumes "capture_mode g = HookMode" and "hooks_resolved g"
    and "lib_SSL_get_session lib ssl = Some session"
    and "lib_SSL_get_session lib ssl' = Some session'"
  shows "lib_SSL_connect lib ssl = (1, ssl', lines) \<Longrightarrow>
           SSL_connect lib g ssl =
             Inr (1, ssl',
                  emit (snapshot_events @ LibCall ''SSL_connect'' #
                        logging_events lib g ssl' session' (master_key_snapshot lib session)) g)"
    and "lib_SSL_do_handshake lib ssl = (1, ssl', lines) \<Longrightarrow>
           SSL_do_handshake lib g ssl =
             Inr (1, ssl',
                  emit (snapshot_events @ LibCall ''SSL_do_handshake'' #
                        logging_events lib g ssl' session' (master_key_snapshot lib session)) g)"
    and "lib_SSL_accept lib ssl = (1, ssl', lines) \<Longrightarrow>
           SSL_accept lib g ssl =
             Inr (1, ssl',
                  emit (snapshot_events @ LibCall ''SSL_accept'' #
                        logging_events lib g ssl' session' (master_key_snapshot lib session)) g)"
proof -
  assume "lib_SSL_connect lib ssl = (1, ssl', lines)"
  from hooked_handshake_success [where f = "lib_SSL_connect lib" and ssl = ssl and lib = lib
      and name = "''SSL_connect''", OF assms(2) resolvedD(1) [OF assms(2)] assms(3) this assms(4)]
  show "SSL_connect lib g ssl =
          Inr (1, ssl',
               emit (snapshot_events @ LibCall ''SSL_connect'' #
                     logging_events lib g ssl' session' (master_key_snapshot lib session)) g)"
    using assms(1) by (simp add: hook_mode_bodies)
next
  assume "lib_SSL_do_handshake lib ssl = (1, ssl', lines)"
  from hooked_handshake_success [where f = "lib_SSL_do_handshake lib" and ssl = ssl and lib = lib
      and name = "''SSL_do_handshake''",
      OF assms(2) resolvedD(2) [OF assms(2)] assms(3) this assms(4)]
  show "SSL_do_handshake lib g ssl =
          Inr (1, ssl',
               emit (snapshot_events @ LibCall ''SSL_do_handshake'' #
                     logging_events lib g ssl' session' (master_key_snapshot lib session)) g)"
    using assms(1) by (simp add: hook_mode_bodies)
next
  assume "lib_SSL_accept lib ssl = (1, ssl', lines)"
  from hooked_handshake_success [where f = "lib_SSL_accept lib" and ssl = ssl and lib = lib
      and name = "''SSL_accept''", OF assms(2) resolvedD(3) [OF assms(2)] assms(3) this assms(4)]
  show "SSL_accept lib g ssl =
          Inr (1, ssl',
               emit (snapshot_events @ LibCall ''SSL_accept'' #
                     logging_events lib g ssl' session' (master_key_snapshot lib session)) g)"
    using assms(1) by (simp add: SSL_accept_def)
qed

lemma demo_resolved [simp]: "hooks_resolved (demo_process fd cb)"
  by (simp add: hooks_resolved_def demo_process_def NULL_def)

lemma demo_mode [simp]:
  "capture_mode (demo_process fd cb) = (if cb = 0 then HookMode else CallbackMode)"
  by (simp add: capture_mode_def demo_process_def NULL_def)

lemma demo_fd [simp]: "KeyLogFile_fd (demo_process fd cb) = fd"
  by (simp add: demo_process_def)

lemma demo_trace [simp]: "trace (demo_process fd cb) = []"
  by (simp add: demo_process_def)

lemma demo_lib_simps [simp]:
  "lib_SSL_connect (demo_lib kb ka cr ret secrets) ssl = (ret, True, secrets)"
  "lib_SSL_do_handshake (demo_lib kb ka cr ret secrets) ssl = (ret, True, secrets)"
  "lib_SSL_accept (demo_lib kb ka cr ret secrets) ssl = (ret, True, secrets)"
  "lib_SSL_get_session (demo_lib kb ka cr ret secrets) ssl = Some ssl"
  "lib_master_key (demo_lib kb ka cr ret secrets) session = (if session then ka else kb)"
  "lib_client_random (demo_lib kb ka cr ret secrets) ssl = cr"
  by (simp_all add: demo_lib_def)

lemma fresh_lib_simps [simp]:
  "lib_SSL_connect (fresh_lib ka cr ret secrets) ssl = (ret, True, secrets)"
  "lib_SSL_do_handshake (fresh_lib ka cr ret secrets) ssl = (ret, True, secrets)"
  "lib_SSL_accept (fresh_lib ka cr ret secrets) ssl = (ret, True, secrets)"
  "lib_SSL_get_session (fresh_lib ka cr ret secrets) ssl = (if ssl then Some True else None)"
  by (simp_all add: fresh_lib_def)

lemma demo_keys [simp]:
  "master_key_of (demo_lib [7, 7, 7] [1, 2, 3] cr ret secrets) False = [7, 7, 7]"
  "master_key_of (demo_lib [7, 7, 7] [1, 2, 3] cr ret secrets) True = [1, 2, 3]"
  "client_random_of (demo_lib kb ka [9] ret secrets) ssl = [9]"
  "client_random_of (demo_lib kb ka [] ret secrets) ssl = []"
  by (simp_all add: master_key_of_def client_random_of_def SSL_MAX_MASTER_KEY_LENGTH_def
      SSL3_RANDOM_SIZE_def)

lemma demo_key_changed: "key_changed [7, 7, 7] [1, 2, 3]"
  by (simp add: key_changed_def)

lemma demo_line: "KeyLogLine [9] [1, 2, 3] = ''CLIENT_RANDOM 09 010203\<newline>''"
  by (simp add: KeyLogLine_def hex_def hex_byte_def hex_digit_def)

lemma demo_snapshots:
  "master_key_snapshot (demo_lib kb ka cr ret secrets) True =
     \<lparr>mk_value = take 48 ka @ replicate (48 - length (take 48 ka)) 0,
      mk_length = length (take 48 ka)\<rparr>"
  "master_key_snapshot (demo_lib kb ka cr ret secrets) False =
     \<lparr>mk_value = take 48 kb @ replicate (48 - length (take 48 kb)) 0,
      mk_length = length (take 48 kb)\<rparr>"
  "client_random_snapshot (demo_lib kb ka cr ret secrets) ssl =
     \<lparr>cr_value = take 32 cr @ replicate (32 - length (take 32 cr)) 0,
      cr_length = length (take 32 cr)\<rparr>"
  by (simp_all add: master_key_snapshot_eq client_random_snapshot_eq master_key_of_def
      client_random_of_def SSL_MAX_MASTER_KEY_LENGTH_def SSL3_RANDOM_SIZE_def)

lemma hex_digit_lower: "d < 16 \<Longrightarrow> hex_digit d \<in> set ''0123456789abcdef''"
  unfolding hex_digit_def by (rule nth_mem) simp

lemma hex_byte_lower: "set (hex_byte b) \<subseteq> set ''0123456789abcdef''"
proof -
  have "unat b < 256" using unsigned_less [of b, where ?'a = nat] by simp
  then have "unat b div 16 < 16" and "unat b mod 16 < 16" by simp_all
  then show ?thesis
    using hex_digit_lower by (simp only: hex_byte_def list.set insert_subset empty_subsetI simp_thms)
qed

lemma hex_lower: "set (hex bs) \<subseteq> set ''0123456789abcdef''"
proof -
  have "set (hex bs) = (\<Union>b\<in>set bs. set (hex_byte b))"
    by (simp add: hex_def)
  then show ?thesis
    using hex_byte_lower by blast
qed

lemma length_hex: "length (hex bs) = 2 * length bs"
  by (induction bs) (simp_all add: hex_def hex_byte_def)

lemma hex_example_client_random:
  "hex example_client_random =
     ''000102030405060708090a0b0c0d0e0f101112131415161718191a1b1c1d1e1f''"
  by (simp add: hex_def hex_byte_def hex_digit_def example_client_random_def)

lemma hex_example_master_key:
  "hex example_master_key =
     ''a0a1a2a3a4a5a6a7a8a9aaabacadaeafb0b1b2b3b4b5b6b7b8b9babbbcbdbebfc0c1c2c3c4c5c6c7c8c9cacbcccdcecf''"
  by (simp add: hex_def hex_byte_def hex_digit_def example_master_key_def)

lemma length_examples:
  "length example_client_random = 32" "length example_master_key = 48"
  by (simp_all add: example_client_random_def example_master_key_def)

lemma example_line:
  "KeyLogLine example_client_random example_master_key =
     ''CLIENT_RANDOM 000102030405060708090a0b0c0d0e0f101112131415161718191a1b1c1d1e1f a0a1a2a3a4a5a6a7a8a9aaabacadaeafb0b1b2b3b4b5b6b7b8b9babbbcbdbebfc0c1c2c3c4c5c6c7c8c9cacbcccdcecf\<newline>''"
  by (simp add: KeyLogLine_def hex_example_client_random hex_example_master_key)

section \<open>Invariants of the runs of an application\<close>

lemma undisturbed_refl [simp]: "undisturbed g g"
  by (simp add: undisturbed_def)

lemma undisturbed_trans:
  assumes "undisturbed g g1" and "undisturbed g1 g2"
  shows "undisturbed g g2"
proof -
  from assms(1) obtain ws1 where
    w1: "writes (trace g1) = writes (trace g) @ ws1" "list_all (\<lambda>w. fst w = KeyLogFile_fd g) ws1"
    by (auto simp: undisturbed_def)
  from assms(2) obtain ws2 where
    w2: "writes (trace g2) = writes (trace g1) @ ws2" "list_all (\<lambda>w. fst w = KeyLogFile_fd g1) ws2"
    by (auto simp: undisturbed_def)
  have fd: "KeyLogFile_fd g1 = KeyLogFile_fd g"
    using assms(1) by (simp add: undisturbed_def)
  have "writes (trace g2) = writes (trace g) @ (ws1 @ ws2)"
    using w1 w2 by simp
  moreover have "list_all (\<lambda>w. fst w = KeyLogFile_fd g) (ws1 @ ws2)"
    using w1 w2 fd by simp
  ultimately have "\<exists>ws. writes (trace g2) = writes (trace g) @ ws \<and>
      list_all (\<lambda>w. fst w = KeyLogFile_fd g) ws"
    by blast
  with assms show ?thesis
    by (simp add: undisturbed_def)
qed

lemma undisturbed_emit:
  assumes "opens evs = []" and "closes evs = []"
    and "list_all (\<lambda>w. fst w = KeyLogFile_fd g) (writes evs)"
  shows "undisturbed g (emit evs g)"
  using assms by (simp add: undisturbed_def)

lemma same_files_undisturbed: "same_files g g' \<Longrightarrow> undisturbed g g'"
  by (simp add: same_files_def undisturbed_def)

lemma dl_only_append [simp]: "dl_only (xs @ ys) \<longleftrightarrow> dl_only xs \<and> dl_only ys"
  by (auto simp: dl_only_def)

lemma load_function_emits:
  "\<exists>evs. outcome snd (load_function env g symb) = emit evs g \<and> dl_only evs"
proof (cases "env_dlsym_next env symb = NULL")
  case False
  then have "outcome snd (load_function env g symb) = emit [Dl_sym_next symb] g"
    by (simp add: load_function_def outcome_def Let_def)
  moreover have "dl_only [Dl_sym_next symb]" by (simp add: dl_only_def)
  ultimately show ?thesis by blast
next
  case True
  show ?thesis
  proof (cases "env_dlopen env ''libssl.so'' = NULL")
    case False
    with True have "outcome snd (load_function env g symb) =
        emit [Dl_sym_next symb, Dl_open ''libssl.so'',
              Dl_sym (env_dlopen env ''libssl.so'') symb,
              Dl_close (env_dlopen env ''libssl.so'')] g"
      by (simp add: load_function_def outcome_def Let_def)
    moreover have "dl_only [Dl_sym_next symb, Dl_open ''libssl.so'',
              Dl_sym (env_dlopen env ''libssl.so'') symb,
              Dl_close (env_dlopen env ''libssl.so'')]"
      by (simp add: dl_only_def)
    ultimately show ?thesis by blast
  next
    case null: True
    with True have "outcome snd (load_function env g symb) =
        emit [Dl_sym_next symb, Dl_open ''libssl.so'', Dl_close NULL] g"
      by (simp add: load_function_def outcome_def Let_def)
    moreover have "dl_only [Dl_sym_next symb, Dl_open ''libssl.so'', Dl_close NULL]"
      by (simp add: dl_only_def)
    ultimately show ?thesis by blast
  qed
qed

lemma load_InrD:
  "load_function env g symb = Inr (p, g') \<Longrightarrow> \<exists>evs. g' = emit evs g \<and> dl_only evs"
  using load_function_emits [of env g symb] by (simp add: outcome_def)

lemma load_InlD:
  "load_function env g symb = Inl (f, g') \<Longrightarrow> \<exists>evs. g' = emit evs g \<and> dl_only evs"
  using load_function_emits [of env g symb] by (simp add: outcome_def)

lemma or_die_InrD:
  "load_function_or_die env g symb = Inr (p, g') \<Longrightarrow>
     p \<noteq> NULL \<and> (\<exists>evs. g' = emit evs g \<and> dl_only evs)"
  by (auto simp: load_function_or_die_def split: sum.splits prod.splits if_splits
      dest: load_InrD)

lemma or_die_InlD:
  "load_function_or_die env g symb = Inl (f, g') \<Longrightarrow> \<exists>evs. g' = emit evs g \<and> dl_only evs"
  by (auto simp: load_function_or_die_def split: sum.splits prod.splits if_splits
      dest: load_InrD load_InlD)

lemma same_files_emit [simp]: "dl_only evs \<Longrightarrow> same_files g (emit evs g')= same_files g g'"
  by (simp add: same_files_def dl_only_def)

lemma same_files_refl [simp]: "same_files g g"
  by (simp add: same_files_def)

lemma same_files_update [simp]:
  "same_files g (g'\<lparr>real_SSL_new := p\<rparr>) = same_files g g'"
  "same_files g (g'\<lparr>real_SSL_connect := p\<rparr>) = same_files g g'"
  "same_files g (g'\<lparr>real_SSL_do_handshake := p\<rparr>) = same_files g g'"
  "same_files g (g'\<lparr>real_SSL_accept := p\<rparr>) = same_files g g'"
  "same_files g (g'\<lparr>real_SSL_get_client_random := p\<rparr>) = same_files g g'"
  "same_files g (g'\<lparr>real_SSL_SESSION_get_master_key := p\<rparr>) = same_files g g'"
  "same_files g (g'\<lparr>real_SSL_get_session := p\<rparr>) = same_files g g'"
  "same_files g (g'\<lparr>real_SSL_CTX_set_keylog_callback := p\<rparr>) = same_files g g'"
  by (simp_all add: same_files_def)

lemma init_openssl_hooks_cases:
  "(\<exists>f g8. init_openssl_hooks env g = Inl (f, g8) \<and> same_files g g8) \<or>
   (\<exists>g8. init_openssl_hooks env g = Inr (KeyLogFile_init env g8) \<and> same_files g g8 \<and>
          hooks_resolved g8)"
  unfolding init_openssl_hooks_def
  by (auto simp: hooks_resolved_def split: sum.splits prod.splits
      dest!: or_die_InrD or_die_InlD load_InrD load_InlD)


lemma outcome_simps [simp]:
  "outcome sel (Inl (f, g)) = g"
  "outcome sel (Inr x) = sel x"
  by (simp_all add: outcome_def)

lemma undisturbed_bind:
  assumes "undisturbed g (outcome sel1 m)"
    and "\<And>x. m = Inr x \<Longrightarrow> undisturbed (sel1 x) (outcome sel2 (k x))"
  shows "undisturbed g (outcome sel2 (case m of Inl e \<Rightarrow> Inl e | Inr x \<Rightarrow> k x))"
proof (cases m)
  case (Inl e)
  with assms(1) show ?thesis by (cases e) simp
next
  case (Inr x)
  with assms have "undisturbed g (sel1 x)" and "undisturbed (sel1 x) (outcome sel2 (k x))"
    by simp_all
  then show ?thesis
    using Inr by (simp add: undisturbed_trans)
qed

lemma undisturbed_read_master_key:
  "undisturbed g (outcome snd (read_master_key lib g ssl))"
  by (simp add: read_master_key_def Let_def undisturbed_emit split: option.splits)

lemma undisturbed_read_client_random:
  "undisturbed g (outcome snd (read_client_random lib g ssl))"
  by (simp add: read_client_random_def undisturbed_emit)

lemma undisturbed_raw_dump:
  "undisturbed g (outcome id (KeyLogFile_raw_dump g client_random master_key))"
  by (simp add: KeyLogFile_raw_dump_def undisturbed_emit split: option.splits)

lemma undisturbed_logging_key:
  "undisturbed g (outcome id (logging_key lib g ssl before_key))"
  unfolding logging_key_def
proof (rule undisturbed_bind [where ?sel1.0 = snd])
  show "undisturbed g (outcome snd (read_master_key lib g ssl))"
    by (rule undisturbed_read_master_key)
next
  fix x :: "SslMasterKey \<times> process"
  obtain after_key g1 where x: "x = (after_key, g1)" by (cases x)
  have "undisturbed g1
          (outcome id (case read_client_random lib g1 ssl of
                         Inl e \<Rightarrow> Inl e
                       | Inr (crandom, g2) \<Rightarrow> KeyLogFile_raw_dump g2 crandom after_key))"
    by (rule undisturbed_bind [where ?sel1.0 = snd])
      (simp_all add: undisturbed_read_client_random undisturbed_raw_dump split_def)
  then show "undisturbed (snd x)
      (outcome id
         (case x of
            (after_key, g1) \<Rightarrow>
              (case changed before_key after_key of
                 None \<Rightarrow> Inl (OutOfBounds, g1)
               | Some True \<Rightarrow>
                   (case read_client_random lib g1 ssl of
                      Inl e \<Rightarrow> Inl e
                    | Inr (crandom, g2) \<Rightarrow> KeyLogFile_raw_dump g2 crandom after_key)
               | Some False \<Rightarrow> Inr g1)))"
    by (simp add: x split: option.splits bool.splits)
qed

lemma quiet_line_writes:
  "opens (concat (map (\<lambda>line. [Sys_write fd line, Sys_write fd ''\<newline>'']) lines)) = []"
  "closes (concat (map (\<lambda>line. [Sys_write fd line, Sys_write fd ''\<newline>'']) lines)) = []"
  "list_all (\<lambda>w. fst w = fd)
     (writes (concat (map (\<lambda>line. [Sys_write fd line, Sys_write fd ''\<newline>'']) lines)))"
  by (induction lines) simp_all

lemma quiet_callback_events:
  "opens (callback_events g lines) = []"
  "closes (callback_events g lines) = []"
  "list_all (\<lambda>w. fst w = KeyLogFile_fd g) (writes (callback_events g lines))"
  by (simp_all add: callback_events_def quiet_line_writes)

lemma undisturbed_call_handshake:
  "undisturbed g (outcome (snd \<circ> snd) (call_handshake name fp f g ssl))"
  by (simp add: call_handshake_def invoke_keylog_callbacks_eq undisturbed_emit
      quiet_callback_events split: prod.splits)

lemma undisturbed_hooked_handshake:
  "undisturbed g (outcome (snd \<circ> snd) (hooked_handshake name fp f lib g ssl))"
  unfolding hooked_handshake_def
proof (rule undisturbed_bind [where ?sel1.0 = snd])
  show "undisturbed g (outcome snd (read_master_key lib g ssl))"
    by (rule undisturbed_read_master_key)
next
  fix x :: "SslMasterKey \<times> process"
  obtain before_key g1 where x: "x = (before_key, g1)" by (cases x)
  have "undisturbed g1
          (outcome (snd \<circ> snd)
             (case call_handshake name fp f g1 ssl of
                Inl e \<Rightarrow> Inl e
              | Inr (ret, ssl', g2) \<Rightarrow>
                  if ret = 1 then
                    (case logging_key lib g2 ssl' before_key of
                       Inl e \<Rightarrow> Inl e
                     | Inr g3 \<Rightarrow> Inr (ret, ssl', g3))
                  else Inr (ret, ssl', g2)))"
  proof (rule undisturbed_bind [where ?sel1.0 = "snd \<circ> snd"])
    show "undisturbed g1 (outcome (snd \<circ> snd) (call_handshake name fp f g1 ssl))"
      by (rule undisturbed_call_handshake)
  next
    fix y :: "int \<times> 'a \<times> process"
    have "undisturbed (snd (snd y))
            (outcome (snd \<circ> snd)
               (case logging_key lib (snd (snd y)) (fst (snd y)) before_key of
                  Inl e \<Rightarrow> Inl e
                | Inr g3 \<Rightarrow> Inr (fst y, fst (snd y), g3)))"
      by (rule undisturbed_bind [where ?sel1.0 = id])
        (simp_all add: undisturbed_logging_key)
    then show "undisturbed ((snd \<circ> snd) y)
            (outcome (snd \<circ> snd)
               (case y of
                  (ret, ssl', g2) \<Rightarrow>
                    if ret = 1 then
                      (case logging_key lib g2 ssl' before_key of
                         Inl e \<Rightarrow> Inl e
                       | Inr g3 \<Rightarrow> Inr (ret, ssl', g3))
                    else Inr (ret, ssl', g2)))"
      by (simp add: split_def)
  qed
  then show "undisturbed (snd x)
      (outcome (snd \<circ> snd)
         (case x of
            (before_key, g1) \<Rightarrow>
              (case call_handshake name fp f g1 ssl of
                 Inl e \<Rightarrow> Inl e
               | Inr (ret, ssl', g2) \<Rightarrow>
                   if ret = 1 then
                     (case logging_key lib g2 ssl' before_key of
                        Inl e \<Rightarrow> Inl e
                      | Inr g3 \<Rightarrow> Inr (ret, ssl', g3))
                   else Inr (ret, ssl', g2))))"
    by (simp add: x)
qed

lemma undisturbed_interceptors:
  "undisturbed g (outcome (snd \<circ> snd) (SSL_connect lib g ssl))"
  "undisturbed g (outcome (snd \<circ> snd) (SSL_do_handshake lib g ssl))"
  "undisturbed g (outcome (snd \<circ> snd) (SSL_accept lib g ssl))"
  by (simp_all add: SSL_connect_def SSL_do_handshake_def SSL_accept_def
      undisturbed_call_handshake undisturbed_hooked_handshake)

lemma undisturbed_SSL_new:
  "undisturbed (outcome id (call_once env g)) (outcome snd (SSL_new env lib g ctx))"
  by (cases "call_once env g")
    (auto simp: SSL_new_def Let_def undisturbed_emit undisturbed_def)


lemma KeyLogFile_init_unset:
  "env_getenv env ''SSLKEYLOGFILE'' = None \<Longrightarrow> KeyLogFile_init env g = g"
  by (simp add: KeyLogFile_init_def)

lemma logging_off_undisturbed:
  "logging_off g \<Longrightarrow> undisturbed g g' \<Longrightarrow> logging_off g'"
  by (auto simp: logging_off_def undisturbed_def)

lemma logging_off_flag [simp]:
  "logging_off (g\<lparr>openssl_init_flag := b\<rparr>) = logging_off g"
  by (simp add: logging_off_def)

lemma call_once_off:
  assumes "env_getenv env ''SSLKEYLOGFILE'' = None" and "logging_off g"
  shows "logging_off (outcome id (call_once env g))"
proof (cases "openssl_init_flag g")
  case True
  with assms show ?thesis by (simp add: call_once_def)
next
  case False
  from init_openssl_hooks_cases [of env g] show ?thesis
  proof (elim disjE exE conjE)
    fix f g8
    assume "init_openssl_hooks env g = Inl (f, g8)" and "same_files g g8"
    with False assms show ?thesis
      by (simp add: call_once_def logging_off_undisturbed same_files_undisturbed)
  next
    fix g8
    assume "init_openssl_hooks env g = Inr (KeyLogFile_init env g8)" and "same_files g g8"
    with False assms show ?thesis
      by (simp add: call_once_def KeyLogFile_init_unset logging_off_undisturbed
          same_files_undisturbed)
  qed
qed

lemma final_state_map_sum [simp]: "final_state (map_sum id sel r) = outcome sel r"
  by (cases r) (auto simp: final_state_def outcome_def)

lemma app_step_off:
  assumes "env_getenv env ''SSLKEYLOGFILE'' = None" and "logging_off g"
  shows "logging_off (final_state (app_step env lib g c))"
proof (cases c)
  case (App_SSL_new ctx)
  from call_once_off [OF assms] undisturbed_SSL_new [of env g lib ctx]
  show ?thesis
    by (simp add: App_SSL_new logging_off_undisturbed)
next
  case (App_SSL_connect ssl)
  with assms(2) undisturbed_interceptors(1) [of g lib ssl] show ?thesis
    by (simp add: logging_off_undisturbed)
next
  case (App_SSL_do_handshake ssl)
  with assms(2) undisturbed_interceptors(2) [of g lib ssl] show ?thesis
    by (simp add: logging_off_undisturbed)
next
  case (App_SSL_accept ssl)
  with assms(2) undisturbed_interceptors(3) [of g lib ssl] show ?thesis
    by (simp add: logging_off_undisturbed)
qed

lemma final_state_run_Cons:
  "final_state (run env lib g (c # cs)) =
     (case app_step env lib g c of
        Inl e \<Rightarrow> final_state (app_step env lib g c)
      | Inr g' \<Rightarrow> final_state (run env lib g' cs))"
  by (simp add: final_state_def split: sum.splits)

lemma run_off:
  assumes "env_getenv env ''SSLKEYLOGFILE'' = None"
  shows "logging_off g \<Longrightarrow> logging_off (final_state (run env lib g calls))"
proof (induction calls arbitrary: g)
  case Nil
  then show ?case by (simp add: final_state_def)
next
  case (Cons c cs)
  have step: "logging_off (final_state (app_step env lib g c))"
    by (rule app_step_off [OF assms Cons.prems])
  show ?case
  proof (cases "app_step env lib g c")
    case (Inl e)
    with step show ?thesis by (simp add: final_state_run_Cons)
  next
    case (Inr g2)
    with step have "logging_off g2" by (simp add: final_state_def)
    then have "logging_off (final_state (run env lib g2 cs))" by (rule Cons.IH)
    with Inr show ?thesis by (simp add: final_state_run_Cons)
  qed
qed

lemma logging_off_initial: "logging_off initial_process"
  by (simp add: logging_off_def initial_process_def)







section \<open>The claims\<close>

subsection \<open>C1: one line per new master key in hook mode\<close>

text \<open>
  C1, as amended. For every successful handshake in hook mode (the wrapped call returns 1
  and the callback entry point is unresolved), through \<open>SSL_connect\<close>, \<open>SSL_do_handshake\<close>
  or \<open>SSL_accept\<close>, on an object that has a session before the call and after it: the
  write calls it issues are those of \<open>hook_log\<close>, that is, exactly one call, carrying one
  key-log line to the writer's descriptor, when the master key after the call is not empty
  and differs from the snapshot taken before the call over its own length, and the client
  random that was read is not empty, and no call otherwise; in particular none when the
  master key is unchanged (session resumption).
\<close>

theorem hook_handshake_logs_once:
  assumes "capture_mode g = HookMode" and "hooks_resolved g"
    and "lib_SSL_get_session lib ssl = Some session"
    and "lib_SSL_get_session lib ssl' = Some session'"
  shows "(lib_SSL_connect lib ssl = (1, ssl', lines) \<longrightarrow>
            (\<exists>g'. SSL_connect lib g ssl = Inr (1, ssl', g') \<and>
                  writes (trace g') = writes (trace g) @ hook_log lib g session ssl' session')) \<and>
         (lib_SSL_do_handshake lib ssl = (1, ssl', lines) \<longrightarrow>
            (\<exists>g'. SSL_do_handshake lib g ssl = Inr (1, ssl', g') \<and>
                  writes (trace g') = writes (trace g) @ hook_log lib g session ssl' session')) \<and>
         (lib_SSL_accept lib ssl = (1, ssl', lines) \<longrightarrow>
            (\<exists>g'. SSL_accept lib g ssl = Inr (1, ssl', g') \<and>
                  writes (trace g') = writes (trace g) @ hook_log lib g session ssl' session')) \<and>
         (master_key_of lib session' = master_key_of lib session \<longrightarrow>
            hook_log lib g session ssl' session' = [])"
proof (intro conjI impI)
  assume "lib_SSL_connect lib ssl = (1, ssl', lines)"
  from hook_success(1) [OF assms this]
  show "\<exists>g'. SSL_connect lib g ssl = Inr (1, ssl', g') \<and>
             writes (trace g') = writes (trace g) @ hook_log lib g session ssl' session'"
    by (simp add: writes_logging_events)
next
  assume "lib_SSL_do_handshake lib ssl = (1, ssl', lines)"
  from hook_success(2) [OF assms this]
  show "\<exists>g'. SSL_do_handshake lib g ssl = Inr (1, ssl', g') \<and>
             writes (trace g') = writes (trace g) @ hook_log lib g session ssl' session'"
    by (simp add: writes_logging_events)
next
  assume "lib_SSL_accept lib ssl = (1, ssl', lines)"
  from hook_success(3) [OF assms this]
  show "\<exists>g'. SSL_accept lib g ssl = Inr (1, ssl', g') \<and>
             writes (trace g') = writes (trace g) @ hook_log lib g session ssl' session'"
    by (simp add: writes_logging_events)
next
  assume "master_key_of lib session' = master_key_of lib session"
  then show "hook_log lib g session ssl' session' = []"
    by (simp add: hook_log_def key_changed_def)
qed

text \<open>
  The theorem at an object whose session holds the master key 07 07 07 and a handshake that
  installs the master key 01 02 03, with client random 09: one line is written to
  descriptor 3.
\<close>

theorem hook_handshake_logs_once_witness:
  "capture_mode (demo_process 3 0) = HookMode \<and> hooks_resolved (demo_process 3 0) \<and>
   lib_SSL_get_session (demo_lib [7, 7, 7] [1, 2, 3] [9] 1 []) False = Some False \<and>
   lib_SSL_get_session (demo_lib [7, 7, 7] [1, 2, 3] [9] 1 []) True = Some True \<and>
   lib_SSL_connect (demo_lib [7, 7, 7] [1, 2, 3] [9] 1 []) False = (1, True, []) \<and>
   (\<exists>g'. SSL_connect (demo_lib [7, 7, 7] [1, 2, 3] [9] 1 []) (demo_process 3 0) False = Inr (1, True, g') \<and>
         writes (trace g') = [(3, ''CLIENT_RANDOM 09 010203\<newline>'')])"
  using hook_handshake_logs_once
    [of "demo_process 3 0" "demo_lib [7, 7, 7] [1, 2, 3] [9] 1 []" False False True True "[]"]
  by (simp add: hook_log_def demo_key_changed demo_line)

text \<open>
  C1 as it is stated fails: here the object has a session, the handshake succeeds in hook
  mode and the snapshot taken after it differs from the one taken before, but the library
  reports a client random of length 0, and \<open>KeyLogFile_raw_dump\<close> (line 337) writes
  nothing.
\<close>

theorem changed_snapshot_without_line:
  "capture_mode (demo_process 3 0) = HookMode \<and>
   lib_SSL_get_session (demo_lib [7, 7, 7] [1, 2, 3] [] 1 []) False = Some False \<and>
   lib_SSL_get_session (demo_lib [7, 7, 7] [1, 2, 3] [] 1 []) True = Some True \<and>
   lib_SSL_connect (demo_lib [7, 7, 7] [1, 2, 3] [] 1 []) False = (1, True, []) \<and>
   master_key_snapshot (demo_lib [7, 7, 7] [1, 2, 3] [] 1 []) True \<noteq> master_key_snapshot (demo_lib [7, 7, 7] [1, 2, 3] [] 1 []) False \<and>
   differs (master_key_snapshot (demo_lib [7, 7, 7] [1, 2, 3] [] 1 []) False) (master_key_snapshot (demo_lib [7, 7, 7] [1, 2, 3] [] 1 []) True) \<and>
   SSL_connect (demo_lib [7, 7, 7] [1, 2, 3] [] 1 []) (demo_process 3 0) False =
     Inr (1, True, emit (snapshot_events @ LibCall ''SSL_connect'' # snapshot_events @
                         [LibCall ''SSL_get_client_random'']) (demo_process 3 0)) \<and>
   writes (snapshot_events @ LibCall ''SSL_connect'' # snapshot_events @
           [LibCall ''SSL_get_client_random'']) = []"
proof -
  have d: "differs (master_key_snapshot (demo_lib [7, 7, 7] [1, 2, 3] [] 1 []) False) (master_key_snapshot (demo_lib [7, 7, 7] [1, 2, 3] [] 1 []) True)"
    by (simp add: differs_snapshots demo_key_changed)
  have n: "master_key_snapshot (demo_lib [7, 7, 7] [1, 2, 3] [] 1 []) True \<noteq> master_key_snapshot (demo_lib [7, 7, 7] [1, 2, 3] [] 1 []) False"
    by (simp add: demo_snapshots)
  have "SSL_connect (demo_lib [7, 7, 7] [1, 2, 3] [] 1 []) (demo_process 3 0) False =
     Inr (1, True, emit (snapshot_events @ LibCall ''SSL_connect'' # snapshot_events @
                      [LibCall ''SSL_get_client_random'']) (demo_process 3 0))"
    using hook_success(1) [of "demo_process 3 0" "demo_lib [7, 7, 7] [1, 2, 3] [] 1 []" False False True True "[]"]
    by (simp add: logging_events_snapshots demo_key_changed)
  with d n show ?thesis by simp
qed

subsection \<open>C2: the deduplication predicate\<close>

text \<open>
  C2. For every pair of snapshots (a buffer of 48 bytes and a length of at most 48 each),
  the condition of line 212 is evaluated without leaving a buffer, and it holds if and only
  if the length of \<open>after\<close> is positive and the first \<open>after.length\<close> bytes of the buffer
  of \<open>after\<close> differ from the first \<open>after.length\<close> bytes of the buffer of \<open>before\<close>.
\<close>

theorem changed_iff:
  assumes "wf_master_key before_key" and "wf_master_key after_key"
  shows "changed before_key after_key =
           Some (mk_length after_key > 0 \<and>
                 take (mk_length after_key) (mk_value after_key) \<noteq>
                   take (mk_length after_key) (mk_value before_key))"
  using changed_differs [OF assms] by (simp add: differs_def)

text \<open>
  The theorem at the snapshots around a handshake that installs the master key 01 02 03:
  the key has changed with respect to the empty snapshot, and not with respect to itself.
\<close>

theorem changed_iff_witness:
  "wf_master_key (master_key_snapshot (demo_lib [] [1, 2, 3] [] 1 []) False) \<and>
   wf_master_key (master_key_snapshot (demo_lib [] [1, 2, 3] [] 1 []) True) \<and>
   changed (master_key_snapshot (demo_lib [] [1, 2, 3] [] 1 []) False)
           (master_key_snapshot (demo_lib [] [1, 2, 3] [] 1 []) True) = Some True \<and>
   changed (master_key_snapshot (demo_lib [] [1, 2, 3] [] 1 []) True)
           (master_key_snapshot (demo_lib [] [1, 2, 3] [] 1 []) True) = Some False"
proof -
  have before_wf: "wf_master_key (master_key_snapshot (demo_lib [] [1, 2, 3] [] 1 []) False)"
    and after_wf: "wf_master_key (master_key_snapshot (demo_lib [] [1, 2, 3] [] 1 []) True)"
    by (rule wf_master_key_snapshot)+
  from changed_iff [OF before_wf after_wf] changed_iff [OF after_wf after_wf]
    before_wf after_wf
  show ?thesis
    by (simp add: demo_snapshots)
qed

subsection \<open>C3: the initiator and the generic interceptor in hook mode\<close>

text \<open>
  C3 does not hold on an object without a session, as an object fresh from \<open>SSL_new\<close> is:
  in hook mode \<open>SSL_connect\<close> (line 131) and \<open>SSL_do_handshake\<close> (line 151) hand the null
  result of \<open>_SSL_get_session\<close> to \<open>_SSL_SESSION_get_master_key\<close>, and the process dies in
  the first snapshot, before the real call is made and although that call would have
  returned 1.
\<close>

theorem hook_mode_dies_without_session:
  "capture_mode (demo_process 3 0) = HookMode \<and> hooks_resolved (demo_process 3 0) \<and>
   lib_SSL_get_session (fresh_lib [1, 2, 3] [9] 1 []) False = None \<and>
   lib_SSL_connect (fresh_lib [1, 2, 3] [9] 1 []) False = (1, True, []) \<and>
   SSL_connect (fresh_lib [1, 2, 3] [9] 1 []) (demo_process 3 0) False =
     Inl (NullSession,
          emit [LibCall ''SSL_get_session'', LibCall ''SSL_SESSION_get_master_key'']
            (demo_process 3 0)) \<and>
   lib_SSL_do_handshake (fresh_lib [1, 2, 3] [9] 1 []) False = (1, True, []) \<and>
   SSL_do_handshake (fresh_lib [1, 2, 3] [9] 1 []) (demo_process 3 0) False =
     Inl (NullSession,
          emit [LibCall ''SSL_get_session'', LibCall ''SSL_SESSION_get_master_key'']
            (demo_process 3 0))"
  by (simp add: hook_mode_bodies hooked_handshake_no_session snapshot_events_def)

subsection \<open>C4: the responder always takes the legacy path\<close>



subsection \<open>C5: the format of a line\<close>

text \<open>
  C5. Given a client random and a master key of non-zero length within their buffers (as
  every snapshot is, see \<open>wf_client_random_snapshot\<close> and \<open>wf_master_key_snapshot\<close>),
  \<open>KeyLogFile_raw_dump\<close> issues one write, of exactly \<open>CLIENT_RANDOM\<close> and a space, the
  client random in hex, a space, the master key in hex and a newline. The hex encoding has
  two characters per byte, all of them digits or lowercase letters a to f. The client
  random 00..1f and the master key a0..cf give the line of the specification.
\<close>

theorem raw_dump_line_format:
  "(wf_client_random client_random \<and> wf_master_key master_key \<and>
    cr_length client_random \<noteq> 0 \<and> mk_length master_key \<noteq> 0 \<longrightarrow>
      KeyLogFile_raw_dump g client_random master_key =
        Inr (emit [Sys_write (KeyLogFile_fd g)
                     (''CLIENT_RANDOM '' @
                      hex (take (cr_length client_random) (cr_value client_random)) @ '' '' @
                      hex (take (mk_length master_key) (mk_value master_key)) @
                      ''\<newline>'')] g)) \<and>
   length (hex bs) = 2 * length bs \<and> set (hex bs) \<subseteq> set ''0123456789abcdef'' \<and>
   KeyLogFile_raw_dump g \<lparr>cr_value = example_client_random, cr_length = 32\<rparr>
       \<lparr>mk_value = example_master_key, mk_length = 48\<rparr> =
     Inr (emit [Sys_write (KeyLogFile_fd g)
       ''CLIENT_RANDOM 000102030405060708090a0b0c0d0e0f101112131415161718191a1b1c1d1e1f a0a1a2a3a4a5a6a7a8a9aaabacadaeafb0b1b2b3b4b5b6b7b8b9babbbcbdbebfc0c1c2c3c4c5c6c7c8c9cacbcccdcecf\<newline>''] g)"
proof (intro conjI impI)
  assume "wf_client_random client_random \<and> wf_master_key master_key \<and>
          cr_length client_random \<noteq> 0 \<and> mk_length master_key \<noteq> 0"
  then show "KeyLogFile_raw_dump g client_random master_key =
        Inr (emit [Sys_write (KeyLogFile_fd g)
                     (''CLIENT_RANDOM '' @
                      hex (take (cr_length client_random) (cr_value client_random)) @ '' '' @
                      hex (take (mk_length master_key) (mk_value master_key)) @
                      ''\<newline>'')] g)"
    by (simp add: raw_dump_wf KeyLogLine_def)
next
  show "length (hex bs) = 2 * length bs" by (rule length_hex)
next
  show "set (hex bs) \<subseteq> set ''0123456789abcdef''" by (rule hex_lower)
next
  have "wf_client_random \<lparr>cr_value = example_client_random, cr_length = 32\<rparr>"
    and "wf_master_key \<lparr>mk_value = example_master_key, mk_length = 48\<rparr>"
    by (simp_all add: wf_client_random_def wf_master_key_def length_examples
        SSL3_RANDOM_SIZE_def SSL_MAX_MASTER_KEY_LENGTH_def)
  from raw_dump_wf [OF this, of g]
  show "KeyLogFile_raw_dump g \<lparr>cr_value = example_client_random, cr_length = 32\<rparr>
       \<lparr>mk_value = example_master_key, mk_length = 48\<rparr> =
     Inr (emit [Sys_write (KeyLogFile_fd g)
       ''CLIENT_RANDOM 000102030405060708090a0b0c0d0e0f101112131415161718191a1b1c1d1e1f a0a1a2a3a4a5a6a7a8a9aaabacadaeafb0b1b2b3b4b5b6b7b8b9babbbcbdbebfc0c1c2c3c4c5c6c7c8c9cacbcccdcecf\<newline>''] g)"
    using length_examples by (simp add: example_line)
qed

text \<open>The theorem at the client random 09 and the master key 01 02 03.\<close>

theorem raw_dump_line_format_witness:
  "wf_client_random (client_random_snapshot (demo_lib [] [1, 2, 3] [9] 1 []) True) \<and>
   wf_master_key (master_key_snapshot (demo_lib [] [1, 2, 3] [9] 1 []) True) \<and>
   cr_length (client_random_snapshot (demo_lib [] [1, 2, 3] [9] 1 []) True) \<noteq> 0 \<and>
   mk_length (master_key_snapshot (demo_lib [] [1, 2, 3] [9] 1 []) True) \<noteq> 0 \<and>
   KeyLogFile_raw_dump (demo_process 3 0)
       (client_random_snapshot (demo_lib [] [1, 2, 3] [9] 1 []) True)
       (master_key_snapshot (demo_lib [] [1, 2, 3] [9] 1 []) True) =
     Inr (emit [Sys_write 3 ''CLIENT_RANDOM 09 010203\<newline>''] (demo_process 3 0))"
proof -
  have cr_wf: "wf_client_random (client_random_snapshot (demo_lib [] [1, 2, 3] [9] 1 []) True)"
    by (rule wf_client_random_snapshot)
  have mk_wf: "wf_master_key (master_key_snapshot (demo_lib [] [1, 2, 3] [9] 1 []) True)"
    by (rule wf_master_key_snapshot)
  from raw_dump_line_format
    [of "client_random_snapshot (demo_lib [] [1, 2, 3] [9] 1 []) True"
        "master_key_snapshot (demo_lib [] [1, 2, 3] [9] 1 []) True" "demo_process 3 0"]
    cr_wf mk_wf
  show ?thesis
    by (simp add: demo_snapshots hex_def hex_byte_def hex_digit_def)
qed

subsection \<open>C6: no logging without the environment variable\<close>

text \<open>
  C6. If \<open>SSLKEYLOGFILE\<close> is not set, then after every sequence of calls of the interposed
  entry points from the start of the process, in either capture mode, and whether the
  sequence ran to its end or the process died on the way: the writer's descriptor is -1, no
  exit handler is registered, no file was ever opened, every write call that was issued
  names the descriptor -1 (no file, so nothing is written), and \<open>KeyLogFile_callback\<close>
  does nothing at all.
\<close>

theorem no_logging_without_SSLKEYLOGFILE:
  assumes "env_getenv env ''SSLKEYLOGFILE'' = None"
  shows "KeyLogFile_fd (final_state (run env lib initial_process calls)) = - 1 \<and>
         atexit_handlers (final_state (run env lib initial_process calls)) = 0 \<and>
         opens (trace (final_state (run env lib initial_process calls))) = [] \<and>
         list_all (\<lambda>w. fst w = - 1)
           (writes (trace (final_state (run env lib initial_process calls)))) \<and>
         KeyLogFile_callback (final_state (run env lib initial_process calls)) line =
           final_state (run env lib initial_process calls)"
  using run_off [OF assms logging_off_initial, of lib calls]
  by (simp add: logging_off_def KeyLogFile_callback_def)

text \<open>
  The theorem at a run in hook mode, \<open>SSL_new\<close> and a successful \<open>SSL_connect\<close>: the only
  write is the one the legacy path issues on descriptor -1.
\<close>

theorem no_logging_without_SSLKEYLOGFILE_witness:
  "env_getenv (demo_env False 9 None) ''SSLKEYLOGFILE'' = None \<and>
   KeyLogFile_fd (final_state (run (demo_env False 9 None) (demo_lib [] [1, 2, 3] [9] 1 [])
     initial_process [App_SSL_new (), App_SSL_connect False])) = - 1 \<and>
   opens (trace (final_state (run (demo_env False 9 None) (demo_lib [] [1, 2, 3] [9] 1 [])
     initial_process [App_SSL_new (), App_SSL_connect False]))) = [] \<and>
   writes (trace (final_state (run (demo_env False 9 None) (demo_lib [] [1, 2, 3] [9] 1 [])
     initial_process [App_SSL_new (), App_SSL_connect False]))) =
     [(- 1, ''CLIENT_RANDOM 09 010203\<newline>'')]"
proof -
  have unset: "env_getenv (demo_env False 9 None) ''SSLKEYLOGFILE'' = None"
    by (simp add: demo_env_def)
  have "writes (trace (final_state (run (demo_env False 9 None) (demo_lib [] [1, 2, 3] [9] 1 [])
     initial_process [App_SSL_new (), App_SSL_connect False]))) =
     [(- 1, ''CLIENT_RANDOM 09 010203\<newline>'')]"
    by code_simp
  with unset no_logging_without_SSLKEYLOGFILE [OF unset, of "demo_lib [] [1, 2, 3] [9] 1 []"
      "[App_SSL_new (), App_SSL_connect False]"]
  show ?thesis by simp
qed

subsection \<open>C7: write calls per line\<close>

text \<open>
  C7 does not hold on the callback path: \<open>KeyLogFile_callback\<close> (lines 323-324) hands the
  line of the library to \<open>write\<close> as it is and issues a second \<open>write\<close> for the newline.
  Here it is called with an open descriptor 3.
\<close>

theorem callback_issues_two_writes:
  "KeyLogFile_callback (demo_process 3 1) ''CLIENT_RANDOM 00 a0'' =
     emit [Sys_write 3 ''CLIENT_RANDOM 00 a0'', Sys_write 3 ''\<newline>''] (demo_process 3 1) \<and>
   length (writes (trace (KeyLogFile_callback (demo_process 3 1) ''CLIENT_RANDOM 00 a0''))) = 2"
  by (simp add: KeyLogFile_callback_def)

subsection \<open>C8: resolving an absent optional symbol\<close>

text \<open>
  C8 does not hold where \<open>dlclose\<close> dereferences a null handle (the GNU C library):
  \<open>load_function\<close> calls \<open>dlclose(handle)\<close> outside the test \<open>if (handle)\<close> (line 247), so
  when the optional symbol is absent and \<open>dlopen("libssl.so")\<close> fails, the process dies in
  \<open>load_function\<close> instead of getting the answer "not found", and with it the first
  \<open>SSL_new\<close>. (\<open>load_function_or_die\<close> never returns a null pointer: \<open>or_die_InrD\<close>.)
\<close>

theorem load_function_dies_on_null_handle:
  "env_dlsym_next (demo_env False 0 None) ''SSL_CTX_set_keylog_callback'' = NULL \<and>
   env_dlopen (demo_env False 0 None) ''libssl.so'' = NULL \<and>
   load_function (demo_env False 0 None) initial_process ''SSL_CTX_set_keylog_callback'' =
     Inl (BadHandle,
          emit [Dl_sym_next ''SSL_CTX_set_keylog_callback'', Dl_open ''libssl.so'', Dl_close NULL]
            initial_process) \<and>
   map_sum fst fst
     (SSL_new (demo_env False 0 None) (demo_lib [] [1, 2, 3] [9] 1 []) initial_process ()) =
     Inl BadHandle"
proof -
  have "map_sum fst fst
     (SSL_new (demo_env False 0 None) (demo_lib [] [1, 2, 3] [9] 1 []) initial_process ()) =
     Inl BadHandle"
    by code_simp
  then show ?thesis
    by (simp add: load_function_def demo_env_def NULL_def Let_def)
qed

subsection \<open>C9: the handle is closed once\<close>




subsection \<open>C10: the guards of the raw dump\<close>

text \<open>
  C10. \<open>KeyLogFile_raw_dump\<close> does nothing when the client random or the master key has
  length 0. When both lengths are non-zero it issues its write on \<open>KeyLogFile_fd\<close>, whatever
  the value of that descriptor. In hook mode, a successful \<open>SSL_connect\<close> on an object
  with a session, after which the client random is read with length 0, writes nothing,
  whether the master key changed or not.
\<close>

theorem raw_dump_guards:
  "(cr_length client_random = 0 \<or> mk_length master_key = 0 \<longrightarrow>
      KeyLogFile_raw_dump g client_random master_key = Inr g) \<and>
   (wf_client_random client_random \<and> wf_master_key master_key \<and>
    cr_length client_random \<noteq> 0 \<and> mk_length master_key \<noteq> 0 \<longrightarrow>
      (\<exists>line. KeyLogFile_raw_dump g client_random master_key =
                Inr (emit [Sys_write (KeyLogFile_fd g) line] g))) \<and>
   (capture_mode g = HookMode \<and> hooks_resolved g \<and>
    lib_SSL_get_session lib ssl = Some session \<and>
    lib_SSL_get_session lib ssl' = Some session' \<and>
    lib_SSL_connect lib ssl = (1, ssl', lines) \<and> client_random_of lib ssl' = [] \<longrightarrow>
      (\<exists>g'. SSL_connect lib g ssl = Inr (1, ssl', g') \<and>
            writes (trace g') = writes (trace g)))"
proof (intro conjI impI)
  assume "cr_length client_random = 0 \<or> mk_length master_key = 0"
  then show "KeyLogFile_raw_dump g client_random master_key = Inr g"
    by (auto simp: KeyLogFile_raw_dump_def)
next
  assume "wf_client_random client_random \<and> wf_master_key master_key \<and>
          cr_length client_random \<noteq> 0 \<and> mk_length master_key \<noteq> 0"
  then show "\<exists>line. KeyLogFile_raw_dump g client_random master_key =
                Inr (emit [Sys_write (KeyLogFile_fd g) line] g)"
    by (auto simp: raw_dump_wf)
next
  assume a: "capture_mode g = HookMode \<and> hooks_resolved g \<and>
    lib_SSL_get_session lib ssl = Some session \<and>
    lib_SSL_get_session lib ssl' = Some session' \<and>
    lib_SSL_connect lib ssl = (1, ssl', lines) \<and> client_random_of lib ssl' = []"
  then have "SSL_connect lib g ssl =
      Inr (1, ssl', emit (snapshot_events @ LibCall ''SSL_connect'' #
             logging_events lib g ssl' session' (master_key_snapshot lib session)) g)"
    using hook_success(1) [of g lib ssl session ssl' session' lines] by simp
  moreover have "writes (logging_events lib g ssl' session' (master_key_snapshot lib session)) = []"
    using a by (simp add: logging_events_def)
  ultimately show "\<exists>g'. SSL_connect lib g ssl = Inr (1, ssl', g') \<and>
            writes (trace g') = writes (trace g)"
    by simp
qed

text \<open>
  The theorem with logging disabled (descriptor -1): nothing is done for an empty client
  random, the write is issued on descriptor -1 for a non-empty one; and at a handshake on an
  object with a session that changes the master key from 07 07 07 to 01 02 03 while the
  client random stays empty.
\<close>

theorem raw_dump_guards_witness:
  "KeyLogFile_raw_dump (demo_process (- 1) 0)
       (client_random_snapshot (demo_lib [7, 7, 7] [1, 2, 3] [] 1 []) True) (master_key_snapshot (demo_lib [7, 7, 7] [1, 2, 3] [] 1 []) True) =
     Inr (demo_process (- 1) 0) \<and>
   (\<exists>line. KeyLogFile_raw_dump (demo_process (- 1) 0)
       (client_random_snapshot (demo_lib [7, 7, 7] [1, 2, 3] [9] 1 []) True) (master_key_snapshot (demo_lib [7, 7, 7] [1, 2, 3] [9] 1 []) True) =
     Inr (emit [Sys_write (- 1) line] (demo_process (- 1) 0))) \<and>
   lib_SSL_get_session (demo_lib [7, 7, 7] [1, 2, 3] [] 1 []) False = Some False \<and>
   lib_SSL_get_session (demo_lib [7, 7, 7] [1, 2, 3] [] 1 []) True = Some True \<and>
   master_key_of (demo_lib [7, 7, 7] [1, 2, 3] [] 1 []) False \<noteq> master_key_of (demo_lib [7, 7, 7] [1, 2, 3] [] 1 []) True \<and>
   (\<exists>g'. SSL_connect (demo_lib [7, 7, 7] [1, 2, 3] [] 1 []) (demo_process 3 0) False = Inr (1, True, g') \<and>
         writes (trace g') = [])"
proof -
  have cr_wf: "wf_client_random (client_random_snapshot (demo_lib [7, 7, 7] [1, 2, 3] [9] 1 []) True)"
    by (rule wf_client_random_snapshot)
  have mk_wf: "wf_master_key (master_key_snapshot (demo_lib [7, 7, 7] [1, 2, 3] [9] 1 []) True)"
    by (rule wf_master_key_snapshot)
  have empty: "cr_length (client_random_snapshot (demo_lib [7, 7, 7] [1, 2, 3] [] 1 []) True) = 0"
    by (simp add: demo_snapshots)
  have full: "cr_length (client_random_snapshot (demo_lib [7, 7, 7] [1, 2, 3] [9] 1 []) True) \<noteq> 0"
    "mk_length (master_key_snapshot (demo_lib [7, 7, 7] [1, 2, 3] [9] 1 []) True) \<noteq> 0"
    by (simp_all add: demo_snapshots)
  from raw_dump_guards
    [of "client_random_snapshot (demo_lib [7, 7, 7] [1, 2, 3] [] 1 []) True" "master_key_snapshot (demo_lib [7, 7, 7] [1, 2, 3] [] 1 []) True"
        "demo_process (- 1) 0" "demo_lib [7, 7, 7] [1, 2, 3] [] 1 []" False False True True "[]"]
    empty
  have first: "KeyLogFile_raw_dump (demo_process (- 1) 0)
       (client_random_snapshot (demo_lib [7, 7, 7] [1, 2, 3] [] 1 []) True) (master_key_snapshot (demo_lib [7, 7, 7] [1, 2, 3] [] 1 []) True) =
     Inr (demo_process (- 1) 0)"
    by simp
  from raw_dump_guards
    [of "client_random_snapshot (demo_lib [7, 7, 7] [1, 2, 3] [9] 1 []) True" "master_key_snapshot (demo_lib [7, 7, 7] [1, 2, 3] [9] 1 []) True"
        "demo_process (- 1) 0" "demo_lib [7, 7, 7] [1, 2, 3] [] 1 []" False False True True "[]"]
    cr_wf mk_wf full
  have second: "\<exists>line. KeyLogFile_raw_dump (demo_process (- 1) 0)
       (client_random_snapshot (demo_lib [7, 7, 7] [1, 2, 3] [9] 1 []) True) (master_key_snapshot (demo_lib [7, 7, 7] [1, 2, 3] [9] 1 []) True) =
     Inr (emit [Sys_write (- 1) line] (demo_process (- 1) 0))"
    by simp
  from raw_dump_guards
    [of "client_random_snapshot (demo_lib [7, 7, 7] [1, 2, 3] [] 1 []) True" "master_key_snapshot (demo_lib [7, 7, 7] [1, 2, 3] [] 1 []) True"
        "demo_process 3 0" "demo_lib [7, 7, 7] [1, 2, 3] [] 1 []" False False True True "[]"]
  have third: "\<exists>g'. SSL_connect (demo_lib [7, 7, 7] [1, 2, 3] [] 1 []) (demo_process 3 0) False = Inr (1, True, g') \<and>
         writes (trace g') = []"
    by simp
  from first second third show ?thesis by simp
qed

end
